theory Spec2Isabelle
  imports Complex_Main
begin

section \<open>Far::PatchTables: evaluation of parametric patches\<close>

text \<open>
  A shallow embedding of the interpolation methods of \<^verbatim>\<open>opensubdiv/far/patchTables.h\<close>.

  Conventions of the embedding:
  \<^item> A \<^verbatim>\<open>float\<close> is the real number it denotes. Every arithmetic operation of the source
    on \<^verbatim>\<open>float\<close> operands computes the exact result and then rounds it with a function
    \<open>rnd\<close>, which is a parameter of every function that computes: \<open>exact\<close> is arithmetic
    without rounding, \<open>float32\<close> is rounding to single precision. Negation and comparison
    do not round.
  \<^item> \<^verbatim>\<open>Index\<close> is \<open>int\<close>, as in \<^verbatim>\<open>far/types.h\<close>.
  \<^item> A raw pointer (\<^verbatim>\<open>Index const * cvs\<close>, \<^verbatim>\<open>float const * Q\<close>) is a function from the
    offset to the value stored there.
  \<^item> The source buffer \<^verbatim>\<open>T const & src\<close> is its \<^verbatim>\<open>operator[]\<close>, a function from an index to
    a value of an arbitrary type \<open>'t\<close>.
  \<^item> The destination \<^verbatim>\<open>U & dst\<close> is a value of an arbitrary type \<open>'u\<close>; its two methods
    \<^verbatim>\<open>Clear\<close> and \<^verbatim>\<open>AddWithWeight\<close> are parameters of the functions that call them, and every
    function returns the destination it has updated.
  \<^item> A failed \<^verbatim>\<open>assert\<close>, a read outside a \<^verbatim>\<open>std::vector\<close> and a division by zero are
    values of the type \<open>error\<close>.
\<close>

type_synonym Index = int

type_synonym float = real

subsection \<open>The arithmetic of \<^verbatim>\<open>float\<close>\<close>

definition exact :: "float \<Rightarrow> float" where
  "exact x = x"

text \<open>
  Rounding to single precision: to the nearest number with a significand of 24 bits, a tie
  going to the even significand. \<open>normalise\<close> scales the magnitude into the interval from
  \<open>2 ^ 23\<close> to \<open>2 ^ 24\<close> and returns the scale; 150 steps reach every magnitude of the
  normal range of single precision. Outside that range (subnormal numbers, overflow to
  infinity) \<open>float32\<close> is not the rounding of the machine.
\<close>

definition round_to_even :: "real \<Rightarrow> int" where
  "round_to_even x =
     (let f = \<lfloor>x\<rfloor>;
          r = x - of_int f
      in if r < 1 / 2 then f
         else if r > 1 / 2 then f + 1
         else if even f then f else f + 1)"

fun normalise :: "nat \<Rightarrow> real \<Rightarrow> real \<Rightarrow> real \<times> real" where
  "normalise 0 m k = (m, k)"
| "normalise (Suc n) m k =
     (if m \<ge> 2 ^ 24 then normalise n (m / 2) (k * 2)
      else if m < 2 ^ 23 then normalise n (m * 2) (k / 2)
      else (m, k))"

definition float32 :: "float \<Rightarrow> float" where
  "float32 x =
     (if x = 0 then 0
      else case normalise 150 \<bar>x\<bar> 1 of (m, k) \<Rightarrow> sgn x * of_int (round_to_even m) * k)"

subsection \<open>Errors and loops\<close>

datatype error =
    Assert_not_IsFeatureAdaptive   \<comment> \<open>\<^verbatim>\<open>assert(not IsFeatureAdaptive())\<close> in \<^verbatim>\<open>Interpolate\<close>\<close>
  | Assert_IsFeatureAdaptive       \<comment> \<open>\<^verbatim>\<open>assert(IsFeatureAdaptive())\<close> in \<^verbatim>\<open>Limit\<close>\<close>
  | Assert_0                       \<comment> \<open>\<^verbatim>\<open>assert(0)\<close> in \<^verbatim>\<open>Limit\<close>\<close>
  | Assert_endcapStencilTables     \<comment> \<open>\<^verbatim>\<open>assert(_endcapStencilTables)\<close> in \<^verbatim>\<open>Limit\<close>\<close>
  | Assert_fcount                  \<comment> \<open>\<^verbatim>\<open>assert(fcount < 4)\<close> in \<^verbatim>\<open>InterpolateGregoryPatch\<close>\<close>
  | Division_by_zero
  | Out_of_range

text \<open>A \<^verbatim>\<open>for (int k=0; k<n; ++k)\<close> loop whose body updates the destination.\<close>

definition for_loop :: "nat \<Rightarrow> (nat \<Rightarrow> 'u \<Rightarrow> 'u) \<Rightarrow> 'u \<Rightarrow> 'u" where
  "for_loop n body dst = fold body [0..<n] dst"

text \<open>
  A loop whose body can fail: the first error ends it. The state of the loop in
  \<^verbatim>\<open>InterpolateGregoryPatch\<close> is the destination and the counter \<^verbatim>\<open>fcount\<close>.
\<close>

definition for_loop_err :: "nat \<Rightarrow> (nat \<Rightarrow> 's \<Rightarrow> error + 's) \<Rightarrow> 's \<Rightarrow> error + 's" where
  "for_loop_err n body st =
     fold (\<lambda>k r. case r of Inl e \<Rightarrow> Inl e | Inr st \<Rightarrow> body k st) [0..<n] (Inr st)"

subsection \<open>Bilinear patches\<close>

text \<open>The local arrays \<^verbatim>\<open>Q[4]\<close>, \<^verbatim>\<open>dQ1[4]\<close> and \<^verbatim>\<open>dQ2[4]\<close> of \<^verbatim>\<open>InterpolateBilinear\<close>.\<close>

definition InterpolateBilinear_weights ::
  "(float \<Rightarrow> float) \<Rightarrow> float \<Rightarrow> float \<Rightarrow> float list \<times> float list \<times> float list" where
  "InterpolateBilinear_weights rnd s t =
     (let os = rnd (1 - s);
          ot = rnd (1 - t);
          Q = [rnd (os * ot), rnd (s * ot), rnd (s * t), rnd (os * t)];
          dQ1 = [rnd (t - 1), ot, t, - t];
          dQ2 = [rnd (s - 1), - s, s, os]
      in (Q, dQ1, dQ2))"

definition InterpolateBilinear ::
  "(float \<Rightarrow> float) \<Rightarrow> ('u \<Rightarrow> 't \<Rightarrow> float \<Rightarrow> float \<Rightarrow> float \<Rightarrow> 'u) \<Rightarrow> (nat \<Rightarrow> Index) \<Rightarrow>
   float \<Rightarrow> float \<Rightarrow> (Index \<Rightarrow> 't) \<Rightarrow> 'u \<Rightarrow> 'u" where
  "InterpolateBilinear rnd add cvs s t src dst =
     (case InterpolateBilinear_weights rnd s t of (Q, dQ1, dQ2) \<Rightarrow>
        for_loop 4 (\<lambda>k dst. add dst (src (cvs k)) (Q ! k) (dQ1 ! k) (dQ2 ! k)) dst)"

subsection \<open>Bicubic patches: regular, boundary, corner\<close>

definition InterpolateRegularPatch ::
  "('u \<Rightarrow> 't \<Rightarrow> float \<Rightarrow> float \<Rightarrow> float \<Rightarrow> 'u) \<Rightarrow> (nat \<Rightarrow> Index) \<Rightarrow>
   (nat \<Rightarrow> float) \<Rightarrow> (nat \<Rightarrow> float) \<Rightarrow> (nat \<Rightarrow> float) \<Rightarrow> (Index \<Rightarrow> 't) \<Rightarrow> 'u \<Rightarrow> 'u" where
  "InterpolateRegularPatch add cvs Q Qd1 Qd2 src dst =
     for_loop 16 (\<lambda>k dst. add dst (src (cvs k)) (Q k) (Qd1 k) (Qd2 k)) dst"

definition InterpolateBoundaryPatch ::
  "(float \<Rightarrow> float) \<Rightarrow> ('u \<Rightarrow> 't \<Rightarrow> float \<Rightarrow> float \<Rightarrow> float \<Rightarrow> 'u) \<Rightarrow> (nat \<Rightarrow> Index) \<Rightarrow>
   (nat \<Rightarrow> float) \<Rightarrow> (nat \<Rightarrow> float) \<Rightarrow> (nat \<Rightarrow> float) \<Rightarrow> (Index \<Rightarrow> 't) \<Rightarrow> 'u \<Rightarrow> 'u" where
  "InterpolateBoundaryPatch rnd add cvs Q Qd1 Qd2 src dst =
     (let dst = for_loop 4 (\<lambda>k dst.
                  let dst = add dst (src (cvs k))
                              (rnd (2 * Q k)) (rnd (2 * Qd1 k)) (rnd (2 * Qd2 k))
                  in add dst (src (cvs (k + 4)))
                       (rnd (- 1 * Q k)) (rnd (- 1 * Qd1 k)) (rnd (- 1 * Qd2 k)))
                dst
      in for_loop 12 (\<lambda>k dst.
           add dst (src (cvs k)) (Q (k + 4)) (Qd1 (k + 4)) (Qd2 (k + 4))) dst)"

definition InterpolateCornerPatch ::
  "(float \<Rightarrow> float) \<Rightarrow> ('u \<Rightarrow> 't \<Rightarrow> float \<Rightarrow> float \<Rightarrow> float \<Rightarrow> 'u) \<Rightarrow> (nat \<Rightarrow> Index) \<Rightarrow>
   (nat \<Rightarrow> float) \<Rightarrow> (nat \<Rightarrow> float) \<Rightarrow> (nat \<Rightarrow> float) \<Rightarrow> (Index \<Rightarrow> 't) \<Rightarrow> 'u \<Rightarrow> 'u" where
  "InterpolateCornerPatch rnd add cvs Q Qd1 Qd2 src dst =
     (let dst = for_loop 3 (\<lambda>k dst.
                  let dst = add dst (src (cvs k))
                              (rnd (2 * Q k)) (rnd (2 * Qd1 k)) (rnd (2 * Qd2 k))
                  in add dst (src (cvs (k + 3)))
                       (rnd (- 1 * Q k)) (rnd (- 1 * Qd1 k)) (rnd (- 1 * Qd2 k)))
                dst;
          dst = for_loop 3 (\<lambda>k dst.
                  let idx = (k + 1) * 4 + 3;
                      dst = add dst (src (cvs (k * 3 + 2)))
                              (rnd (2 * Q idx)) (rnd (2 * Qd1 idx)) (rnd (2 * Qd2 idx))
                  in add dst (src (cvs (k * 3 + 1)))
                       (rnd (- 1 * Q idx)) (rnd (- 1 * Qd1 idx)) (rnd (- 1 * Qd2 idx)))
                dst;
          dst = add dst (src (cvs 1)) (rnd (- 2 * Q 3)) (rnd (- 2 * Qd1 3)) (rnd (- 2 * Qd2 3));
          dst = add dst (src (cvs 2)) (rnd (4 * Q 3)) (rnd (4 * Qd1 3)) (rnd (4 * Qd2 3));
          dst = add dst (src (cvs 4)) (rnd (1 * Q 3)) (rnd (1 * Qd1 3)) (rnd (1 * Qd2 3));
          dst = add dst (src (cvs 5)) (rnd (- 2 * Q 3)) (rnd (- 2 * Qd1 3)) (rnd (- 2 * Qd2 3))
      in for_loop 3 (\<lambda>y dst.
           for_loop 3 (\<lambda>x dst.
             let idx = y * 4 + x + 4
             in add dst (src (cvs (y * 3 + x))) (Q idx) (Qd1 idx) (Qd2 idx)) dst) dst)"

subsection \<open>Gregory-basis patches\<close>

text \<open>
  The stencil tables are declared in \<^verbatim>\<open>far/stencilTables.h\<close>. A \<^verbatim>\<open>Stencil\<close> is taken by its
  three accessors, and a table by its accessor \<^verbatim>\<open>GetStencil\<close>.
\<close>

record Stencil =
  GetSize :: int
  GetVertexIndices :: "nat \<Rightarrow> Index"
  GetWeights :: "nat \<Rightarrow> float"

type_synonym StencilTables = "Index \<Rightarrow> Stencil"

text \<open>
  The four denominators \<^verbatim>\<open>d11\<close>, \<^verbatim>\<open>d12\<close>, \<^verbatim>\<open>d21\<close>, \<^verbatim>\<open>d22\<close>: each is initialised with a sum
  and set to 1 when that sum compares equal to zero.
\<close>

definition Gregory_denominators ::
  "(float \<Rightarrow> float) \<Rightarrow> float \<Rightarrow> float \<Rightarrow> float \<times> float \<times> float \<times> float" where
  "Gregory_denominators rnd s t =
     (let ss = rnd (1 - s);
          tt = rnd (1 - t);
          d11 = rnd (s + t);
          d11 = (if rnd (s + t) = 0 then 1 else d11);
          d12 = rnd (ss + t);
          d12 = (if rnd (ss + t) = 0 then 1 else d12);
          d21 = rnd (s + tt);
          d21 = (if rnd (s + tt) = 0 then 1 else d21);
          d22 = rnd (ss + tt);
          d22 = (if rnd (ss + tt) = 0 then 1 else d22)
      in (d11, d12, d21, d22))"

text \<open>
  The local array \<^verbatim>\<open>weights[4][2]\<close>. A quotient by zero is no real number: a zero divisor
  is the error \<open>Division_by_zero\<close>.
\<close>

definition Gregory_weights ::
  "(float \<Rightarrow> float) \<Rightarrow> float \<Rightarrow> float \<Rightarrow> error + (float \<times> float) list" where
  "Gregory_weights rnd s t =
     (let ss = rnd (1 - s);
          tt = rnd (1 - t)
      in case Gregory_denominators rnd s t of (d11, d12, d21, d22) \<Rightarrow>
           if d11 = 0 \<or> d12 = 0 \<or> d21 = 0 \<or> d22 = 0 then Inl Division_by_zero
           else Inr [(rnd (s / d11), rnd (t / d11)),
                     (rnd (ss / d12), rnd (t / d12)),
                     (rnd (s / d21), rnd (tt / d21)),
                     (rnd (ss / d22), rnd (tt / d22))])"

definition permute :: "int list" where
  "permute = [0, 1, 7, 5, 2, - 1, - 1, 6, 16, - 1, - 1, 12, 15, 17, 11, 10]"

definition fpermute :: "(int \<times> int) list" where
  "fpermute = [(3, 4), (9, 8), (19, 18), (13, 14)]"

text \<open>The body of the loop over the 16 slots, at slot \<open>i\<close>.\<close>

definition Gregory_slot ::
  "(float \<Rightarrow> float) \<Rightarrow> ('u \<Rightarrow> 't \<Rightarrow> float \<Rightarrow> float \<Rightarrow> float \<Rightarrow> 'u) \<Rightarrow> StencilTables \<Rightarrow> int \<Rightarrow>
   (float \<times> float) list \<Rightarrow> (nat \<Rightarrow> float) \<Rightarrow> (nat \<Rightarrow> float) \<Rightarrow> (nat \<Rightarrow> float) \<Rightarrow>
   (Index \<Rightarrow> 't) \<Rightarrow> nat \<Rightarrow> 'u \<times> nat \<Rightarrow> error + 'u \<times> nat" where
  "Gregory_slot rnd add basisStencils stencilIndex weights Q Qd1 Qd2 src i st =
     (case st of (dst, fcount) \<Rightarrow>
        let index = permute ! i;
            offset = stencilIndex
        in if index = - 1 then
             if \<not> fcount < 4 then Inl Assert_fcount
             else
               (case fpermute ! fcount of (v0, v1) \<Rightarrow>
                  let s0 = basisStencils (offset + v0);
                      s1 = basisStencils (offset + v1)
                  in case weights ! fcount of (w0, w1) \<Rightarrow>
                       let dst = for_loop (nat (GetSize s0)) (\<lambda>j dst.
                                   add dst (src (GetVertexIndices s0 j))
                                     (rnd (rnd (Q i * w0) * GetWeights s0 j))
                                     (rnd (rnd (Qd1 i * w0) * GetWeights s0 j))
                                     (rnd (rnd (Qd2 i * w0) * GetWeights s0 j))) dst;
                           dst = for_loop (nat (GetSize s1)) (\<lambda>j dst.
                                   add dst (src (GetVertexIndices s1 j))
                                     (rnd (rnd (Q i * w1) * GetWeights s1 j))
                                     (rnd (rnd (Qd1 i * w1) * GetWeights s1 j))
                                     (rnd (rnd (Qd2 i * w1) * GetWeights s1 j))) dst
                       in Inr (dst, fcount + 1))
           else
             let s = basisStencils (offset + index);
                 dst = for_loop (nat (GetSize s)) (\<lambda>j dst.
                         add dst (src (GetVertexIndices s j))
                           (rnd (Q i * GetWeights s j))
                           (rnd (Qd1 i * GetWeights s j))
                           (rnd (Qd2 i * GetWeights s j))) dst
             in Inr (dst, fcount))"

definition InterpolateGregoryPatch ::
  "(float \<Rightarrow> float) \<Rightarrow> ('u \<Rightarrow> 't \<Rightarrow> float \<Rightarrow> float \<Rightarrow> float \<Rightarrow> 'u) \<Rightarrow> StencilTables \<Rightarrow> int \<Rightarrow>
   float \<Rightarrow> float \<Rightarrow> (nat \<Rightarrow> float) \<Rightarrow> (nat \<Rightarrow> float) \<Rightarrow> (nat \<Rightarrow> float) \<Rightarrow>
   (Index \<Rightarrow> 't) \<Rightarrow> 'u \<Rightarrow> error + 'u" where
  "InterpolateGregoryPatch rnd add basisStencils stencilIndex s t Q Qd1 Qd2 src dst =
     (case Gregory_weights rnd s t of
        Inl e \<Rightarrow> Inl e
      | Inr weights \<Rightarrow>
          (case for_loop_err 16
                  (Gregory_slot rnd add basisStencils stencilIndex weights Q Qd1 Qd2 src)
                  (dst, 0) of
             Inl e \<Rightarrow> Inl e
           | Inr (dst, fcount) \<Rightarrow> Inr dst))"

subsection \<open>The patch tables\<close>

text \<open>
  Modelled from the spec: the enumeration \<^verbatim>\<open>PatchDescriptor::Type\<close> is declared in
  \<^verbatim>\<open>far/patchDescriptor.h\<close>. Its members are the closed set of patch kinds of the spec
  (bilinear, regular, boundary, corner, Gregory, Gregory-boundary, Gregory-basis,
  single-crease), under the names \<^verbatim>\<open>Limit\<close> uses. The numeric order of the members, which
  \<^verbatim>\<open>Limit\<close> compares, is not given by the spec: it is the parameter \<open>Type_ord\<close> below.
\<close>

datatype Type =
    QUADS
  | REGULAR
  | SINGLE_CREASE
  | BOUNDARY
  | CORNER
  | GREGORY
  | GREGORY_BOUNDARY
  | GREGORY_BASIS

record PatchDescriptor =
  GetType :: Type

datatype TensorBasis = BASIS_BEZIER | BASIS_BSPLINE

record PatchHandle =
  arrayIndex :: Index
  patchIndex :: Index
  vertIndex :: Index

text \<open>
  Modelled from the spec: \<^verbatim>\<open>struct PatchArray\<close> is only declared in the header. The spec
  gives it a descriptor, the offset of its sub-range in the global control-vertex table,
  its patch count and the offset of its sub-range in the patch-parameter table.
\<close>

record PatchArray =
  desc :: PatchDescriptor
  numPatches :: int
  vertOffset :: Index
  paramOffset :: Index

text \<open>
  \<^verbatim>\<open>PatchParam\<close> is declared in \<^verbatim>\<open>far/patchParam.h\<close>; the bit field it holds is
  of an arbitrary type \<open>'bits\<close>.
\<close>

record 'bits PatchParam =
  bitField :: 'bits

text \<open>The private members of \<^verbatim>\<open>PatchTables\<close> that the evaluation reads.\<close>

record 'bits PatchTables =
  maxValence :: int
  numPtexFaces :: int
  patchArrays :: "PatchArray list"
  patchVerts :: "Index list"
  paramTable :: "'bits PatchParam list"
  endcapStencilTables :: "StencilTables option"
  sharpnessIndices :: "Index list"
  sharpnessValues :: "float list"

text \<open>\<^verbatim>\<open>operator[]\<close> of a \<^verbatim>\<open>std::vector\<close>: a read outside the vector is an error.\<close>

definition vector_at :: "'a list \<Rightarrow> int \<Rightarrow> error + 'a" where
  "vector_at xs i =
     (if 0 \<le> i \<and> i < int (length xs) then Inr (xs ! nat i) else Inl Out_of_range)"

text \<open>
  Modelled from the spec: \<^verbatim>\<open>IsFeatureAdaptive\<close> is defined outside the header; it is true iff
  any stored array's descriptor is not the uniform bilinear-quad kind.
\<close>

definition IsFeatureAdaptive :: "'bits PatchTables \<Rightarrow> bool" where
  "IsFeatureAdaptive tables = list_ex (\<lambda>pa. GetType (desc pa) \<noteq> QUADS) (patchArrays tables)"

text \<open>
  Modelled from the spec: \<^verbatim>\<open>GetPatchArrayDescriptor\<close> is defined outside the header; it
  returns the descriptor of the array \<open>array\<close>.
\<close>

definition GetPatchArrayDescriptor :: "'bits PatchTables \<Rightarrow> int \<Rightarrow> error + PatchDescriptor" where
  "GetPatchArrayDescriptor tables array =
     (case vector_at (patchArrays tables) array of Inl e \<Rightarrow> Inl e | Inr pa \<Rightarrow> Inr (desc pa))"

text \<open>
  Modelled from the spec: \<^verbatim>\<open>GetPatchVertices\<close> is defined outside the header; it resolves the
  control vertices of a patch through the relative offset of the handle within its array.
  The \<^verbatim>\<open>IndexArray\<close> it returns is represented by the position of its first element in
  \<^verbatim>\<open>_patchVerts\<close>: \<^verbatim>\<open>Interpolate\<close> and \<^verbatim>\<open>Limit\<close> use nothing but \<^verbatim>\<open>begin()\<close>.
\<close>

definition GetPatchVertices :: "'bits PatchTables \<Rightarrow> PatchHandle \<Rightarrow> error + Index" where
  "GetPatchVertices tables handle =
     (case vector_at (patchArrays tables) (arrayIndex handle) of
        Inl e \<Rightarrow> Inl e
      | Inr pa \<Rightarrow> Inr (vertOffset pa + vertIndex handle))"

text \<open>
  The pointer \<^verbatim>\<open>cvs.begin()\<close> into \<^verbatim>\<open>_patchVerts\<close>, and the test that the \<open>n\<close> elements read
  through it lie inside the vector.
\<close>

definition begin_ptr :: "'bits PatchTables \<Rightarrow> Index \<Rightarrow> nat \<Rightarrow> Index" where
  "begin_ptr tables first k = patchVerts tables ! nat (first + int k)"

definition readable :: "'bits PatchTables \<Rightarrow> Index \<Rightarrow> nat \<Rightarrow> bool" where
  "readable tables first n = (0 \<le> first \<and> first + int n \<le> int (length (patchVerts tables)))"

text \<open>
  What the evaluation takes from outside the header: the rounding of \<^verbatim>\<open>float\<close> arithmetic,
  the numeric order of the members of \<^verbatim>\<open>PatchDescriptor::Type\<close>,
  \<^verbatim>\<open>PatchParam::BitField::Normalize\<close> (which updates \<open>s\<close> and \<open>t\<close>),
  \<^verbatim>\<open>getBasisWeightsAtUV\<close> (which fills \<^verbatim>\<open>Q\<close>, \<^verbatim>\<open>Qd1\<close>, \<^verbatim>\<open>Qd2\<close>), and the two methods of the
  destination.
\<close>

record ('bits, 't, 'u) externals =
  rounding :: "float \<Rightarrow> float"
  Type_ord :: "Type \<Rightarrow> int"
  Normalize :: "'bits \<Rightarrow> float \<times> float \<Rightarrow> float \<times> float"
  getBasisWeightsAtUV ::
    "TensorBasis \<Rightarrow> 'bits \<Rightarrow> float \<Rightarrow> float \<Rightarrow> (nat \<Rightarrow> float) \<times> (nat \<Rightarrow> float) \<times> (nat \<Rightarrow> float)"
  Clear :: "'u \<Rightarrow> 'u"
  AddWithWeight :: "'u \<Rightarrow> 't \<Rightarrow> float \<Rightarrow> float \<Rightarrow> float \<Rightarrow> 'u"

definition Interpolate ::
  "('bits, 't, 'u) externals \<Rightarrow> 'bits PatchTables \<Rightarrow> PatchHandle \<Rightarrow> float \<Rightarrow> float \<Rightarrow>
   (Index \<Rightarrow> 't) \<Rightarrow> 'u \<Rightarrow> error + 'u" where
  "Interpolate E tables handle s t src dst =
     (if \<not> (\<not> IsFeatureAdaptive tables) then Inl Assert_not_IsFeatureAdaptive
      else
        case GetPatchVertices tables handle of
          Inl e \<Rightarrow> Inl e
        | Inr cvs \<Rightarrow>
            (case vector_at (paramTable tables) (patchIndex handle) of
               Inl e \<Rightarrow> Inl e
             | Inr param \<Rightarrow>
                 let bits = bitField param
                 in case Normalize E bits (s, t) of (s, t) \<Rightarrow>
                      let dst = Clear E dst
                      in if readable tables cvs 4
                         then Inr (InterpolateBilinear (rounding E) (AddWithWeight E)
                                     (begin_ptr tables cvs) s t src dst)
                         else Inl Out_of_range))"

definition Limit ::
  "('bits, 't, 'u) externals \<Rightarrow> 'bits PatchTables \<Rightarrow> PatchHandle \<Rightarrow> float \<Rightarrow> float \<Rightarrow>
   (Index \<Rightarrow> 't) \<Rightarrow> 'u \<Rightarrow> error + 'u" where
  "Limit E tables handle s t src dst =
     (if \<not> IsFeatureAdaptive tables then Inl Assert_IsFeatureAdaptive
      else
        case vector_at (paramTable tables) (patchIndex handle) of
          Inl e \<Rightarrow> Inl e
        | Inr param \<Rightarrow>
            let bits = bitField param
            in case Normalize E bits (s, t) of (s, t) \<Rightarrow>
              (case GetPatchArrayDescriptor tables (arrayIndex handle) of
                 Inl e \<Rightarrow> Inl e
               | Inr d \<Rightarrow>
                   let ptype = GetType d;
                       dst = Clear E dst
                   in if Type_ord E ptype \<ge> Type_ord E REGULAR \<and>
                         Type_ord E ptype \<le> Type_ord E CORNER
                      then
                        (case getBasisWeightsAtUV E BASIS_BSPLINE bits s t of (Q, Qd1, Qd2) \<Rightarrow>
                          (case GetPatchVertices tables handle of
                             Inl e \<Rightarrow> Inl e
                           | Inr cvs \<Rightarrow>
                               (case ptype of
                                  REGULAR \<Rightarrow>
                                    if readable tables cvs 16
                                    then Inr (InterpolateRegularPatch (AddWithWeight E)
                                                (begin_ptr tables cvs) Q Qd1 Qd2 src dst)
                                    else Inl Out_of_range
                                | SINGLE_CREASE \<Rightarrow> Inr dst
                                | BOUNDARY \<Rightarrow>
                                    if readable tables cvs 12
                                    then Inr (InterpolateBoundaryPatch (rounding E)
                                                (AddWithWeight E)
                                                (begin_ptr tables cvs) Q Qd1 Qd2 src dst)
                                    else Inl Out_of_range
                                | CORNER \<Rightarrow>
                                    if readable tables cvs 9
                                    then Inr (InterpolateCornerPatch (rounding E)
                                                (AddWithWeight E)
                                                (begin_ptr tables cvs) Q Qd1 Qd2 src dst)
                                    else Inl Out_of_range
                                | GREGORY \<Rightarrow> Inl Assert_0
                                | GREGORY_BOUNDARY \<Rightarrow> Inl Assert_0
                                | _ \<Rightarrow> Inl Assert_0)))
                      else if ptype = GREGORY_BASIS then
                        (case endcapStencilTables tables of
                           None \<Rightarrow> Inl Assert_endcapStencilTables
                         | Some stencils \<Rightarrow>
                             (case getBasisWeightsAtUV E BASIS_BEZIER bits s t of
                                (Q, Qd1, Qd2) \<Rightarrow>
                                  InterpolateGregoryPatch (rounding E) (AddWithWeight E) stencils
                                    (vertIndex handle) s t Q Qd1 Qd2 src dst))
                      else Inl Assert_0))"

subsection \<open>Sequences of accumulations\<close>

text \<open>
  The calls \<^verbatim>\<open>dst.AddWithWeight(src[cvs[k]], w, wd1, wd2)\<close> for a list of control-vertex
  slots \<open>k\<close> and weights, in the order of the list.
\<close>

definition accumulate ::
  "('u \<Rightarrow> 't \<Rightarrow> float \<Rightarrow> float \<Rightarrow> float \<Rightarrow> 'u) \<Rightarrow> (Index \<Rightarrow> 't) \<Rightarrow> (nat \<Rightarrow> Index) \<Rightarrow> 'u \<Rightarrow>
   (nat \<times> float \<times> float \<times> float) list \<Rightarrow> 'u" where
  "accumulate add src cvs dst calls =
     foldl (\<lambda>dst (k, w, wd1, wd2). add dst (src (cvs k)) w wd1 wd2) dst calls"

text \<open>
  The calls of \<^verbatim>\<open>AddWithWeight\<close> that expand one stencil for the basis slot \<open>i\<close>: the
  stencil at \<open>stencilIndex + v\<close>, each of its sources weighted by the basis weight times
  the weight of the source (\<open>None\<close>), or by the basis weight times a blend weight \<open>w\<close>
  times the weight of the source (\<open>Some w\<close>).
\<close>

definition add_stencil ::
  "(float \<Rightarrow> float) \<Rightarrow> ('u \<Rightarrow> 't \<Rightarrow> float \<Rightarrow> float \<Rightarrow> float \<Rightarrow> 'u) \<Rightarrow> StencilTables \<Rightarrow> int \<Rightarrow>
   (nat \<Rightarrow> float) \<Rightarrow> (nat \<Rightarrow> float) \<Rightarrow> (nat \<Rightarrow> float) \<Rightarrow> (Index \<Rightarrow> 't) \<Rightarrow>
   'u \<Rightarrow> nat \<times> int \<times> float option \<Rightarrow> 'u" where
  "add_stencil rnd add basisStencils stencilIndex Q Qd1 Qd2 src dst c =
     (case c of (i, v, blend) \<Rightarrow>
        let st = basisStencils (stencilIndex + v);
            weight = (\<lambda>q j. case blend of
                        None \<Rightarrow> rnd (q * GetWeights st j)
                      | Some w \<Rightarrow> rnd (rnd (q * w) * GetWeights st j))
        in foldl (\<lambda>dst j. add dst (src (GetVertexIndices st j))
                   (weight (Q i) j) (weight (Qd1 i) j) (weight (Qd2 i) j))
             dst [0..<nat (GetSize st)])"

text \<open>
  The calls of \<^verbatim>\<open>AddWithWeight\<close> that expand the stencil at \<open>stencilIndex + v\<close> with the
  three weights 0 on each of its sources.
\<close>

definition zero_calls ::
  "('u \<Rightarrow> 't \<Rightarrow> float \<Rightarrow> float \<Rightarrow> float \<Rightarrow> 'u) \<Rightarrow> StencilTables \<Rightarrow> int \<Rightarrow> (Index \<Rightarrow> 't) \<Rightarrow>
   'u \<Rightarrow> int \<Rightarrow> 'u" where
  "zero_calls add basisStencils stencilIndex src dst v =
     (let st = basisStencils (stencilIndex + v)
      in foldl (\<lambda>dst j. add dst (src (GetVertexIndices st j)) 0 0 0)
           dst [0..<nat (GetSize st)])"

subsection \<open>An example store\<close>

text \<open>
  One patch array of one patch of a given kind over sixteen control vertices, evaluated in
  exact arithmetic into a triple of reals (value and the two derivatives), with the members
  of \<^verbatim>\<open>PatchDescriptor::Type\<close> numbered in the order \<^verbatim>\<open>Limit\<close> lists them.
\<close>

definition example_stencils :: StencilTables where
  "example_stencils = (\<lambda>i. \<lparr>GetSize = 1, GetVertexIndices = (\<lambda>j. i), GetWeights = (\<lambda>j. 1)\<rparr>)"

definition example_add :: "real \<times> real \<times> real \<Rightarrow> real \<Rightarrow> float \<Rightarrow> float \<Rightarrow> float \<Rightarrow> real \<times> real \<times> real" where
  "example_add dst x w wd1 wd2 =
     (case dst of (p, d1, d2) \<Rightarrow> (p + w * x, d1 + wd1 * x, d2 + wd2 * x))"

text \<open>A destination that records the calls of \<^verbatim>\<open>AddWithWeight\<close> it receives.\<close>

definition example_log ::
  "(real \<times> float \<times> float \<times> float) list \<Rightarrow> real \<Rightarrow> float \<Rightarrow> float \<Rightarrow> float \<Rightarrow>
   (real \<times> float \<times> float \<times> float) list" where
  "example_log dst x w wd1 wd2 = dst @ [(x, w, wd1, wd2)]"

definition example_externals :: "(unit, real, real \<times> real \<times> real) externals" where
  "example_externals =
     \<lparr>rounding = exact,
      Type_ord = (\<lambda>ty. case ty of QUADS \<Rightarrow> 3 | REGULAR \<Rightarrow> 6 | SINGLE_CREASE \<Rightarrow> 7
                    | BOUNDARY \<Rightarrow> 8 | CORNER \<Rightarrow> 9 | GREGORY \<Rightarrow> 10 | GREGORY_BOUNDARY \<Rightarrow> 11
                    | GREGORY_BASIS \<Rightarrow> 12),
      Normalize = (\<lambda>bits st. st),
      getBasisWeightsAtUV = (\<lambda>basis bits s t. (\<lambda>k. 1 / 16, \<lambda>k. 0, \<lambda>k. 0)),
      Clear = (\<lambda>dst. (0, 0, 0)),
      AddWithWeight = example_add\<rparr>"

definition example_tables :: "Type \<Rightarrow> unit PatchTables" where
  "example_tables ty =
     \<lparr>maxValence = 4, numPtexFaces = 1,
      patchArrays = [\<lparr>desc = \<lparr>GetType = ty\<rparr>, numPatches = 1, vertOffset = 0, paramOffset = 0\<rparr>],
      patchVerts = [0, 1, 2, 3, 4, 5, 6, 7, 8, 9, 10, 11, 12, 13, 14, 15],
      paramTable = [\<lparr>bitField = ()\<rparr>],
      endcapStencilTables = Some example_stencils,
      sharpnessIndices = [], sharpnessValues = []\<rparr>"

definition example_handle :: PatchHandle where
  "example_handle = \<lparr>arrayIndex = 0, patchIndex = 0, vertIndex = 0\<rparr>"

section \<open>Properties\<close>

subsection \<open>Loops\<close>

lemma for_loop_0: "for_loop 0 body dst = dst"
  by (simp add: for_loop_def)

lemma for_loop_Suc: "for_loop (Suc n) body dst = body n (for_loop n body dst)"
  by (simp add: for_loop_def)

lemma for_loop_numeral:
  "for_loop (numeral k) body dst = body (pred_numeral k) (for_loop (pred_numeral k) body dst)"
  by (simp add: numeral_eq_Suc for_loop_Suc)

lemmas for_loop_unroll = for_loop_numeral for_loop_Suc for_loop_0

lemma for_loop_skip: "for_loop n (\<lambda>j dst. dst) dst = dst"
  by (induction n) (simp_all add: for_loop_0 for_loop_Suc)

lemma for_loop_foldl: "for_loop n body dst = foldl (\<lambda>d j. body j d) dst [0..<n]"
  by (simp add: for_loop_def foldl_conv_fold)

lemma for_loop_err_0: "for_loop_err 0 body st = Inr st"
  by (simp add: for_loop_err_def)

lemma for_loop_err_Suc:
  "for_loop_err (Suc n) body st =
     (case for_loop_err n body st of Inl e \<Rightarrow> Inl e | Inr st' \<Rightarrow> body n st')"
  by (simp add: for_loop_err_def)

lemma for_loop_err_numeral:
  "for_loop_err (numeral k) body st =
     (case for_loop_err (pred_numeral k) body st of
        Inl e \<Rightarrow> Inl e
      | Inr st' \<Rightarrow> body (pred_numeral k) st')"
  by (simp add: numeral_eq_Suc for_loop_err_Suc)

lemmas for_loop_err_unroll = for_loop_err_numeral for_loop_err_Suc for_loop_err_0

subsection \<open>Rounding to single precision at the values of the corners\<close>

lemma normalise_numeral:
  "normalise (numeral n) m k =
     (if m \<ge> 2 ^ 24 then normalise (pred_numeral n) (m / 2) (k * 2)
      else if m < 2 ^ 23 then normalise (pred_numeral n) (m * 2) (k / 2)
      else (m, k))"
  by (simp add: numeral_eq_Suc)

lemmas float32_eval = float32_def normalise_numeral round_to_even_def Let_def

lemma float32_0: "float32 0 = 0"
  by (simp add: float32_def)

lemma float32_1: "float32 1 = 1"
  by (simp add: float32_eval)

lemma float32_minus_1: "float32 (- 1) = - 1"
  by (simp add: float32_eval)

lemma float32_2: "float32 2 = 2"
  by (simp add: float32_eval)

lemma float32_half: "float32 (1 / 2) = 1 / 2"
  by (simp add: float32_eval)

subsection \<open>Bilinear weights\<close>

text \<open>
  C6. In exact arithmetic, for all \<open>(s, t)\<close>, the four value weights of
  \<^verbatim>\<open>InterpolateBilinear\<close> are \<open>(1-s)(1-t)\<close>, \<open>s(1-t)\<close>, \<open>st\<close>, \<open>(1-s)t\<close> and sum to 1, and the
  two sets of derivative weights are \<open>{t-1, 1-t, t, -t}\<close> and \<open>{s-1, -s, s, 1-s}\<close> and each
  sums to 0. At the four corners of the unit square the same holds under every rounding
  that leaves 0, 1 and -1 unchanged, so in single precision too. These weights are the
  ones accumulated, weight \<open>k\<close> on control vertex \<open>k\<close>.
\<close>

theorem InterpolateBilinear_weights_sums:
  "(case InterpolateBilinear_weights exact s t of (Q, dQ1, dQ2) \<Rightarrow>
      Q = [(1 - s) * (1 - t), s * (1 - t), s * t, (1 - s) * t] \<and>
      dQ1 = [t - 1, 1 - t, t, - t] \<and>
      dQ2 = [s - 1, - s, s, 1 - s] \<and>
      sum_list Q = 1 \<and> sum_list dQ1 = 0 \<and> sum_list dQ2 = 0) \<and>
   (rnd 0 = 0 \<and> rnd 1 = 1 \<and> rnd (- 1) = - 1 \<and> (s' = 0 \<or> s' = 1) \<and> (t' = 0 \<or> t' = 1) \<longrightarrow>
      (case InterpolateBilinear_weights rnd s' t' of (Q, dQ1, dQ2) \<Rightarrow>
         Q = [(1 - s') * (1 - t'), s' * (1 - t'), s' * t', (1 - s') * t'] \<and>
         dQ1 = [t' - 1, 1 - t', t', - t'] \<and>
         dQ2 = [s' - 1, - s', s', 1 - s'] \<and>
         sum_list Q = 1 \<and> sum_list dQ1 = 0 \<and> sum_list dQ2 = 0)) \<and>
   InterpolateBilinear rnd add cvs s t src dst =
     (case InterpolateBilinear_weights rnd s t of (Q, dQ1, dQ2) \<Rightarrow>
        accumulate add src cvs dst
          [(0, Q ! 0, dQ1 ! 0, dQ2 ! 0), (1, Q ! 1, dQ1 ! 1, dQ2 ! 1),
           (2, Q ! 2, dQ1 ! 2, dQ2 ! 2), (3, Q ! 3, dQ1 ! 3, dQ2 ! 3)])"
proof -
  have exact_arithmetic:
    "case InterpolateBilinear_weights exact s t of (Q, dQ1, dQ2) \<Rightarrow>
      Q = [(1 - s) * (1 - t), s * (1 - t), s * t, (1 - s) * t] \<and>
      dQ1 = [t - 1, 1 - t, t, - t] \<and>
      dQ2 = [s - 1, - s, s, 1 - s] \<and>
      sum_list Q = 1 \<and> sum_list dQ1 = 0 \<and> sum_list dQ2 = 0"
    by (simp add: InterpolateBilinear_weights_def exact_def Let_def algebra_simps)
  have corners:
    "case InterpolateBilinear_weights rnd s' t' of (Q, dQ1, dQ2) \<Rightarrow>
         Q = [(1 - s') * (1 - t'), s' * (1 - t'), s' * t', (1 - s') * t'] \<and>
         dQ1 = [t' - 1, 1 - t', t', - t'] \<and>
         dQ2 = [s' - 1, - s', s', 1 - s'] \<and>
         sum_list Q = 1 \<and> sum_list dQ1 = 0 \<and> sum_list dQ2 = 0"
    if "rnd 0 = 0 \<and> rnd 1 = 1 \<and> rnd (- 1) = - 1 \<and> (s' = 0 \<or> s' = 1) \<and> (t' = 0 \<or> t' = 1)"
    using that by (auto simp add: InterpolateBilinear_weights_def Let_def)
  have calls:
    "InterpolateBilinear rnd add cvs s t src dst =
     (case InterpolateBilinear_weights rnd s t of (Q, dQ1, dQ2) \<Rightarrow>
        accumulate add src cvs dst
          [(0, Q ! 0, dQ1 ! 0, dQ2 ! 0), (1, Q ! 1, dQ1 ! 1, dQ2 ! 1),
           (2, Q ! 2, dQ1 ! 2, dQ2 ! 2), (3, Q ! 3, dQ1 ! 3, dQ2 ! 3)])"
    by (simp add: InterpolateBilinear_def for_loop_unroll accumulate_def split: prod.splits)
  show ?thesis
    by (rule conjI [OF exact_arithmetic conjI [OF impI [OF corners] calls]])
qed

theorem InterpolateBilinear_weights_sums_witness:
  "float32 0 = 0 \<and> float32 1 = 1 \<and> float32 (- 1) = - 1 \<and>
   InterpolateBilinear_weights float32 1 0 = ([0, 1, 0, 0], [- 1, 1, 0, 0], [0, - 1, 1, 0]) \<and>
   sum_list [0, 1, 0, 0 :: real] = 1 \<and> sum_list [- 1, 1, 0, 0 :: real] = 0 \<and>
   sum_list [0, - 1, 1, 0 :: real] = 0"
  using InterpolateBilinear_weights_sums [of 0 0 float32 1 0 example_add "\<lambda>k. 0" real_of_int "(0, 0, 0)"]
  by (simp add: float32_0 float32_1 float32_minus_1 split: prod.splits)

subsection \<open>Boundary and corner patches\<close>

text \<open>
  C2. \<^verbatim>\<open>InterpolateBoundaryPatch\<close> accumulates, for each of the four missing vertices
  \<open>k = 0..3\<close> of the outer ring, the stored vertex \<open>cvs[k]\<close> with the weights \<open>2 * Q[k]\<close>,
  \<open>2 * Qd1[k]\<close>, \<open>2 * Qd2[k]\<close> and its inward neighbour \<open>cvs[k+4]\<close> with the weights
  \<open>-1 * Q[k]\<close>, \<open>-1 * Qd1[k]\<close>, \<open>-1 * Qd2[k]\<close>, which is the combination \<open>2 v[k] - v[k+4]\<close>
  under the weights of index \<open>k\<close>; then the twelve stored vertices \<open>cvs[0..11]\<close> one to one
  with the weights of index \<open>4..15\<close>.
\<close>

theorem InterpolateBoundaryPatch_mirrored:
  "InterpolateBoundaryPatch rnd add cvs Q Qd1 Qd2 src dst =
     accumulate add src cvs dst
       [(0, rnd (2 * Q 0), rnd (2 * Qd1 0), rnd (2 * Qd2 0)),
        (4, rnd (- 1 * Q 0), rnd (- 1 * Qd1 0), rnd (- 1 * Qd2 0)),
        (1, rnd (2 * Q 1), rnd (2 * Qd1 1), rnd (2 * Qd2 1)),
        (5, rnd (- 1 * Q 1), rnd (- 1 * Qd1 1), rnd (- 1 * Qd2 1)),
        (2, rnd (2 * Q 2), rnd (2 * Qd1 2), rnd (2 * Qd2 2)),
        (6, rnd (- 1 * Q 2), rnd (- 1 * Qd1 2), rnd (- 1 * Qd2 2)),
        (3, rnd (2 * Q 3), rnd (2 * Qd1 3), rnd (2 * Qd2 3)),
        (7, rnd (- 1 * Q 3), rnd (- 1 * Qd1 3), rnd (- 1 * Qd2 3)),
        (0, Q 4, Qd1 4, Qd2 4), (1, Q 5, Qd1 5, Qd2 5), (2, Q 6, Qd1 6, Qd2 6),
        (3, Q 7, Qd1 7, Qd2 7), (4, Q 8, Qd1 8, Qd2 8), (5, Q 9, Qd1 9, Qd2 9),
        (6, Q 10, Qd1 10, Qd2 10), (7, Q 11, Qd1 11, Qd2 11), (8, Q 12, Qd1 12, Qd2 12),
        (9, Q 13, Qd1 13, Qd2 13), (10, Q 14, Qd1 14, Qd2 14), (11, Q 15, Qd1 15, Qd2 15)]"
  by (simp add: InterpolateBoundaryPatch_def Let_def for_loop_unroll accumulate_def)

text \<open>
  C3. \<^verbatim>\<open>InterpolateCornerPatch\<close> accumulates the two missing edges by single mirrors
  (\<open>2 * cvs[k] - cvs[k+3]\<close> under the weights \<open>0, 1, 2\<close> and \<open>2 * cvs[3k+2] - cvs[3k+1]\<close> under
  the weights \<open>7, 11, 15\<close>), the absent corner, weight index 3, as
  \<open>-2 v1 + 4 v2 + v4 - 2 v5\<close> (\<open>cvs[1]\<close> with \<open>-2 * Q[3]\<close>, \<open>cvs[2]\<close> with \<open>4 * Q[3]\<close>,
  \<open>cvs[4]\<close> with \<open>1 * Q[3]\<close>, \<open>cvs[5]\<close> with \<open>-2 * Q[3]\<close>, and likewise for \<open>Qd1\<close>, \<open>Qd2\<close>),
  and the nine stored vertices one to one with the remaining nine weights.
\<close>

theorem InterpolateCornerPatch_mirrored:
  "InterpolateCornerPatch rnd add cvs Q Qd1 Qd2 src dst =
     accumulate add src cvs dst
       [(0, rnd (2 * Q 0), rnd (2 * Qd1 0), rnd (2 * Qd2 0)),
        (3, rnd (- 1 * Q 0), rnd (- 1 * Qd1 0), rnd (- 1 * Qd2 0)),
        (1, rnd (2 * Q 1), rnd (2 * Qd1 1), rnd (2 * Qd2 1)),
        (4, rnd (- 1 * Q 1), rnd (- 1 * Qd1 1), rnd (- 1 * Qd2 1)),
        (2, rnd (2 * Q 2), rnd (2 * Qd1 2), rnd (2 * Qd2 2)),
        (5, rnd (- 1 * Q 2), rnd (- 1 * Qd1 2), rnd (- 1 * Qd2 2)),
        (2, rnd (2 * Q 7), rnd (2 * Qd1 7), rnd (2 * Qd2 7)),
        (1, rnd (- 1 * Q 7), rnd (- 1 * Qd1 7), rnd (- 1 * Qd2 7)),
        (5, rnd (2 * Q 11), rnd (2 * Qd1 11), rnd (2 * Qd2 11)),
        (4, rnd (- 1 * Q 11), rnd (- 1 * Qd1 11), rnd (- 1 * Qd2 11)),
        (8, rnd (2 * Q 15), rnd (2 * Qd1 15), rnd (2 * Qd2 15)),
        (7, rnd (- 1 * Q 15), rnd (- 1 * Qd1 15), rnd (- 1 * Qd2 15)),
        (1, rnd (- 2 * Q 3), rnd (- 2 * Qd1 3), rnd (- 2 * Qd2 3)),
        (2, rnd (4 * Q 3), rnd (4 * Qd1 3), rnd (4 * Qd2 3)),
        (4, rnd (1 * Q 3), rnd (1 * Qd1 3), rnd (1 * Qd2 3)),
        (5, rnd (- 2 * Q 3), rnd (- 2 * Qd1 3), rnd (- 2 * Qd2 3)),
        (0, Q 4, Qd1 4, Qd2 4), (1, Q 5, Qd1 5, Qd2 5), (2, Q 6, Qd1 6, Qd2 6),
        (3, Q 8, Qd1 8, Qd2 8), (4, Q 9, Qd1 9, Qd2 9), (5, Q 10, Qd1 10, Qd2 10),
        (6, Q 12, Qd1 12, Qd2 12), (7, Q 13, Qd1 13, Qd2 13), (8, Q 14, Qd1 14, Qd2 14)]"
  by (simp add: InterpolateCornerPatch_def Let_def for_loop_unroll accumulate_def
      del: add_2_eq_Suc add_2_eq_Suc')

subsection \<open>Gregory-basis patches: the split ratios\<close>

lemma Gregory_denominators_nonzero:
  "case Gregory_denominators rnd s t of (d11, d12, d21, d22) \<Rightarrow>
     d11 \<noteq> 0 \<and> d12 \<noteq> 0 \<and> d21 \<noteq> 0 \<and> d22 \<noteq> 0"
  by (simp add: Gregory_denominators_def Let_def)

lemma Gregory_weights_Inr:
  "Gregory_weights rnd s t =
     (case Gregory_denominators rnd s t of (d11, d12, d21, d22) \<Rightarrow>
        Inr [(rnd (s / d11), rnd (t / d11)),
             (rnd (rnd (1 - s) / d12), rnd (t / d12)),
             (rnd (s / d21), rnd (rnd (1 - t) / d21)),
             (rnd (rnd (1 - s) / d22), rnd (rnd (1 - t) / d22))])"
  using Gregory_denominators_nonzero [of rnd s t]
  by (simp add: Gregory_weights_def Let_def split: prod.splits)

text \<open>
  C1, as amended. \<^verbatim>\<open>InterpolateGregoryPatch\<close> never divides by zero: for every \<open>(s, t)\<close>, so at
  the four corners \<open>(0,0)\<close>, \<open>(1,0)\<close>, \<open>(0,1)\<close>, \<open>(1,1)\<close>, and under every rounding, the four
  denominators are not zero. At the four corners, under every rounding that leaves 0, 1, 2
  and 1/2 unchanged (single precision included), the weights are the quotients by these
  denominators, and at the degenerate corner of a split ratio, where its numerators and
  the sum of its denominator vanish, the denominator is the pinned value 1 and the ratio
  is exactly 0.
\<close>

theorem Gregory_corner_ratios:
  "Gregory_weights rnd s t \<noteq> Inl Division_by_zero \<and>
   (case Gregory_denominators rnd s t of (d11, d12, d21, d22) \<Rightarrow>
      d11 \<noteq> 0 \<and> d12 \<noteq> 0 \<and> d21 \<noteq> 0 \<and> d22 \<noteq> 0 \<and>
      (rnd 0 = 0 \<and> rnd 1 = 1 \<and> rnd 2 = 2 \<and> rnd (1 / 2) = 1 / 2 \<and>
       (s = 0 \<or> s = 1) \<and> (t = 0 \<or> t = 1) \<longrightarrow>
         Gregory_weights rnd s t =
           Inr [(s / d11, t / d11), ((1 - s) / d12, t / d12),
                (s / d21, (1 - t) / d21), ((1 - s) / d22, (1 - t) / d22)] \<and>
         (s + t = 0 \<longrightarrow> d11 = 1 \<and> s / d11 = 0 \<and> t / d11 = 0) \<and>
         ((1 - s) + t = 0 \<longrightarrow> d12 = 1 \<and> (1 - s) / d12 = 0 \<and> t / d12 = 0) \<and>
         (s + (1 - t) = 0 \<longrightarrow> d21 = 1 \<and> s / d21 = 0 \<and> (1 - t) / d21 = 0) \<and>
         ((1 - s) + (1 - t) = 0 \<longrightarrow> d22 = 1 \<and> (1 - s) / d22 = 0 \<and> (1 - t) / d22 = 0)))"
proof -
  have no_error: "Gregory_weights rnd s t \<noteq> Inl Division_by_zero"
    by (simp add: Gregory_weights_Inr split: prod.splits)
  have corners:
    "case Gregory_denominators rnd s t of (d11, d12, d21, d22) \<Rightarrow>
      d11 \<noteq> 0 \<and> d12 \<noteq> 0 \<and> d21 \<noteq> 0 \<and> d22 \<noteq> 0 \<and>
      (rnd 0 = 0 \<and> rnd 1 = 1 \<and> rnd 2 = 2 \<and> rnd (1 / 2) = 1 / 2 \<and>
       (s = 0 \<or> s = 1) \<and> (t = 0 \<or> t = 1) \<longrightarrow>
         Gregory_weights rnd s t =
           Inr [(s / d11, t / d11), ((1 - s) / d12, t / d12),
                (s / d21, (1 - t) / d21), ((1 - s) / d22, (1 - t) / d22)] \<and>
         (s + t = 0 \<longrightarrow> d11 = 1 \<and> s / d11 = 0 \<and> t / d11 = 0) \<and>
         ((1 - s) + t = 0 \<longrightarrow> d12 = 1 \<and> (1 - s) / d12 = 0 \<and> t / d12 = 0) \<and>
         (s + (1 - t) = 0 \<longrightarrow> d21 = 1 \<and> s / d21 = 0 \<and> (1 - t) / d21 = 0) \<and>
         ((1 - s) + (1 - t) = 0 \<longrightarrow> d22 = 1 \<and> (1 - s) / d22 = 0 \<and> (1 - t) / d22 = 0))"
  proof -
    have fixed: "Gregory_denominators rnd s t =
        (if s + t = 0 then 1 else s + t, if 1 - s + t = 0 then 1 else 1 - s + t,
         if s + (1 - t) = 0 then 1 else s + (1 - t),
         if 1 - s + (1 - t) = 0 then 1 else 1 - s + (1 - t)) \<and>
        Gregory_weights rnd s t =
          Inr [(s / (if s + t = 0 then 1 else s + t), t / (if s + t = 0 then 1 else s + t)),
               ((1 - s) / (if 1 - s + t = 0 then 1 else 1 - s + t),
                t / (if 1 - s + t = 0 then 1 else 1 - s + t)),
               (s / (if s + (1 - t) = 0 then 1 else s + (1 - t)),
                (1 - t) / (if s + (1 - t) = 0 then 1 else s + (1 - t))),
               ((1 - s) / (if 1 - s + (1 - t) = 0 then 1 else 1 - s + (1 - t)),
                (1 - t) / (if 1 - s + (1 - t) = 0 then 1 else 1 - s + (1 - t)))]"
      if r: "rnd 0 = 0" "rnd 1 = 1" "rnd 2 = 2" "rnd (1 / 2) = 1 / 2"
        and c: "s = 0 \<and> t = 0 \<or> s = 1 \<and> t = 0 \<or> s = 0 \<and> t = 1 \<or> s = 1 \<and> t = 1"
      using c
    proof (elim disjE conjE)
      assume "s = 0" "t = 0"
      then show ?thesis by (simp add: Gregory_weights_def Gregory_denominators_def Let_def r)
    next
      assume "s = 1" "t = 0"
      then show ?thesis by (simp add: Gregory_weights_def Gregory_denominators_def Let_def r)
    next
      assume "s = 0" "t = 1"
      then show ?thesis by (simp add: Gregory_weights_def Gregory_denominators_def Let_def r)
    next
      assume "s = 1" "t = 1"
      then show ?thesis by (simp add: Gregory_weights_def Gregory_denominators_def Let_def r)
    qed
    have general: "Gregory_denominators rnd s t = (d11, d12, d21, d22) \<Longrightarrow>
        d11 \<noteq> 0 \<and> d12 \<noteq> 0 \<and> d21 \<noteq> 0 \<and> d22 \<noteq> 0" for d11 d12 d21 d22
      using Gregory_denominators_nonzero [of rnd s t] by simp
    show ?thesis
    proof (cases "rnd 0 = 0 \<and> rnd 1 = 1 \<and> rnd 2 = 2 \<and> rnd (1 / 2) = 1 / 2 \<and>
        (s = 0 \<or> s = 1) \<and> (t = 0 \<or> t = 1)")
      case True
      then have "s = 0 \<and> t = 0 \<or> s = 1 \<and> t = 0 \<or> s = 0 \<and> t = 1 \<or> s = 1 \<and> t = 1"
        by blast
      with True fixed have f: "Gregory_denominators rnd s t =
        (if s + t = 0 then 1 else s + t, if 1 - s + t = 0 then 1 else 1 - s + t,
         if s + (1 - t) = 0 then 1 else s + (1 - t),
         if 1 - s + (1 - t) = 0 then 1 else 1 - s + (1 - t))"
        and g: "Gregory_weights rnd s t =
          Inr [(s / (if s + t = 0 then 1 else s + t), t / (if s + t = 0 then 1 else s + t)),
               ((1 - s) / (if 1 - s + t = 0 then 1 else 1 - s + t),
                t / (if 1 - s + t = 0 then 1 else 1 - s + t)),
               (s / (if s + (1 - t) = 0 then 1 else s + (1 - t)),
                (1 - t) / (if s + (1 - t) = 0 then 1 else s + (1 - t))),
               ((1 - s) / (if 1 - s + (1 - t) = 0 then 1 else 1 - s + (1 - t)),
                (1 - t) / (if 1 - s + (1 - t) = 0 then 1 else 1 - s + (1 - t)))]"
        by blast+
      from True have st: "(s = 0 \<or> s = 1) \<and> (t = 0 \<or> t = 1)" by blast
      have "s + t = 0 \<Longrightarrow> s = 0 \<and> t = 0" "1 - s + t = 0 \<Longrightarrow> s = 1 \<and> t = 0"
        "s + (1 - t) = 0 \<Longrightarrow> s = 0 \<and> t = 1" "1 - s + (1 - t) = 0 \<Longrightarrow> s = 1 \<and> t = 1"
        using st by auto
      then show ?thesis
        unfolding f g by auto
    next
      case False
      then show ?thesis
        using general by (auto split: prod.splits)
    qed
  qed
  show ?thesis
    by (rule conjI [OF no_error corners])
qed

theorem Gregory_corner_ratios_witness:
  "float32 0 = 0 \<and> float32 1 = 1 \<and> float32 2 = 2 \<and> float32 (1 / 2) = 1 / 2 \<and>
   Gregory_denominators float32 1 0 = (1, 1, 2, 1) \<and>
   Gregory_weights float32 1 0 = Inr [(1, 0), (0, 0), (1 / 2, 1 / 2), (0, 1)]"
proof -
  have d: "Gregory_denominators float32 1 0 = (1, 1, 2, 1)"
    by (simp add: Gregory_denominators_def Let_def float32_0 float32_1 float32_2)
  show ?thesis
    using Gregory_corner_ratios [of float32 1 0]
    by (simp add: d float32_0 float32_1 float32_2 float32_half)
qed

text \<open>
  The claim C1 as stated fails at the corner \<open>(0, 0)\<close>: the first split ratio, whose numerator
  and denominator vanish there, evaluates in single precision to 0 and not to 1.
\<close>

theorem Gregory_degenerate_ratio_not_one:
  "Gregory_weights float32 0 0 = Inr [(0, 0), (1, 0), (0, 1), (1 / 2, 1 / 2)] \<and>
   fst (projr (Gregory_weights float32 0 0) ! 0) = 0 \<and>
   fst (projr (Gregory_weights float32 0 0) ! 0) \<noteq> 1"
  by (simp add: Gregory_weights_def Gregory_denominators_def Let_def
      float32_0 float32_1 float32_2 float32_half)

lemma zero_calls_skip:
  "(\<And>d x. add d x 0 0 0 = d) \<Longrightarrow> zero_calls add bs si src dst v = dst"
  by (simp add: zero_calls_def Let_def for_loop_foldl [symmetric] for_loop_skip)

lemma Gregory_slot_degenerate:
  assumes "rnd 0 = 0" "permute ! i = - 1" "f < 4" "fpermute ! f = (v0, v1)" "w ! f = (0, 0)"
  shows "Gregory_slot rnd add bs si w Q Qd1 Qd2 src i (dst, f) =
     Inr (zero_calls add bs si src (zero_calls add bs si src dst v0) v1, f + 1)"
  using assms by (simp add: Gregory_slot_def zero_calls_def Let_def for_loop_foldl)

text \<open>
  C10, as amended. For every \<open>(s, t)\<close> in the unit square and each of the four blended
  slots: in exact arithmetic the two blend weights sum to 1 whenever the sum in the
  denominator is not zero. At the degenerate corner, where that sum is zero, under every
  rounding that leaves 0 unchanged (single precision included), the denominator is
  replaced by 1 and both weights are 0, so the pair sums to 0, and every call of
  \<^verbatim>\<open>AddWithWeight\<close> that the slot (5, 6, 9 or 10, reached with \<^verbatim>\<open>fcount\<close> 0, 1, 2 or 3) makes
  carries the three weights 0: the slot contributes nothing to a destination on which
  such a call has no effect.
\<close>

theorem Gregory_blend_pairs:
  assumes "0 \<le> s" "s \<le> 1" "0 \<le> t" "t \<le> 1" and r0: "rnd 0 = 0"
  shows
    "(case Gregory_weights exact s t of
        Inl e \<Rightarrow> False
      | Inr w \<Rightarrow>
          (s + t \<noteq> 0 \<longrightarrow> fst (w ! 0) + snd (w ! 0) = 1) \<and>
          ((1 - s) + t \<noteq> 0 \<longrightarrow> fst (w ! 1) + snd (w ! 1) = 1) \<and>
          (s + (1 - t) \<noteq> 0 \<longrightarrow> fst (w ! 2) + snd (w ! 2) = 1) \<and>
          ((1 - s) + (1 - t) \<noteq> 0 \<longrightarrow> fst (w ! 3) + snd (w ! 3) = 1)) \<and>
     (case Gregory_denominators rnd s t of (d11, d12, d21, d22) \<Rightarrow>
        (s + t = 0 \<longrightarrow> d11 = 1) \<and> ((1 - s) + t = 0 \<longrightarrow> d12 = 1) \<and>
        (s + (1 - t) = 0 \<longrightarrow> d21 = 1) \<and> ((1 - s) + (1 - t) = 0 \<longrightarrow> d22 = 1)) \<and>
     (case Gregory_weights rnd s t of
        Inl e \<Rightarrow> False
      | Inr w \<Rightarrow>
          (s + t = 0 \<longrightarrow>
             w ! 0 = (0, 0) \<and> fst (w ! 0) + snd (w ! 0) = 0 \<and>
             Gregory_slot rnd add bs si w Q Qd1 Qd2 src 5 (dst, 0) =
               Inr (zero_calls add bs si src (zero_calls add bs si src dst 3) 4, 1) \<and>
             ((\<forall>d x. add d x 0 0 0 = d) \<longrightarrow>
                Gregory_slot rnd add bs si w Q Qd1 Qd2 src 5 (dst, 0) = Inr (dst, 1))) \<and>
          ((1 - s) + t = 0 \<longrightarrow>
             w ! 1 = (0, 0) \<and> fst (w ! 1) + snd (w ! 1) = 0 \<and>
             Gregory_slot rnd add bs si w Q Qd1 Qd2 src 6 (dst, 1) =
               Inr (zero_calls add bs si src (zero_calls add bs si src dst 9) 8, 2) \<and>
             ((\<forall>d x. add d x 0 0 0 = d) \<longrightarrow>
                Gregory_slot rnd add bs si w Q Qd1 Qd2 src 6 (dst, 1) = Inr (dst, 2))) \<and>
          (s + (1 - t) = 0 \<longrightarrow>
             w ! 2 = (0, 0) \<and> fst (w ! 2) + snd (w ! 2) = 0 \<and>
             Gregory_slot rnd add bs si w Q Qd1 Qd2 src 9 (dst, 2) =
               Inr (zero_calls add bs si src (zero_calls add bs si src dst 19) 18, 3) \<and>
             ((\<forall>d x. add d x 0 0 0 = d) \<longrightarrow>
                Gregory_slot rnd add bs si w Q Qd1 Qd2 src 9 (dst, 2) = Inr (dst, 3))) \<and>
          ((1 - s) + (1 - t) = 0 \<longrightarrow>
             w ! 3 = (0, 0) \<and> fst (w ! 3) + snd (w ! 3) = 0 \<and>
             Gregory_slot rnd add bs si w Q Qd1 Qd2 src 10 (dst, 3) =
               Inr (zero_calls add bs si src (zero_calls add bs si src dst 13) 14, 4) \<and>
             ((\<forall>d x. add d x 0 0 0 = d) \<longrightarrow>
                Gregory_slot rnd add bs si w Q Qd1 Qd2 src 10 (dst, 3) = Inr (dst, 4))))"
proof -
  have sum1: "x / d + y / d = 1" if "d \<noteq> 0" "x + y = d" for x y d :: real
    using that by (simp add: add_divide_distrib [symmetric])
  have exact_sums:
    "case Gregory_weights exact s t of
        Inl e \<Rightarrow> False
      | Inr w \<Rightarrow>
          (s + t \<noteq> 0 \<longrightarrow> fst (w ! 0) + snd (w ! 0) = 1) \<and>
          ((1 - s) + t \<noteq> 0 \<longrightarrow> fst (w ! 1) + snd (w ! 1) = 1) \<and>
          (s + (1 - t) \<noteq> 0 \<longrightarrow> fst (w ! 2) + snd (w ! 2) = 1) \<and>
          ((1 - s) + (1 - t) \<noteq> 0 \<longrightarrow> fst (w ! 3) + snd (w ! 3) = 1)"
    by (simp add: Gregory_weights_Inr Gregory_denominators_def Let_def exact_def sum1)
  have c0: "s = 0 \<and> t = 0" if "s + t = 0" using that assms by linarith
  have c1: "s = 1 \<and> t = 0" if "(1 - s) + t = 0" using that assms by linarith
  have c2: "s = 0 \<and> t = 1" if "s + (1 - t) = 0" using that assms by linarith
  have c3: "s = 1 \<and> t = 1" if "(1 - s) + (1 - t) = 0" using that assms by linarith
  have denominators:
    "case Gregory_denominators rnd s t of (d11, d12, d21, d22) \<Rightarrow>
        (s + t = 0 \<longrightarrow> d11 = 1) \<and> ((1 - s) + t = 0 \<longrightarrow> d12 = 1) \<and>
        (s + (1 - t) = 0 \<longrightarrow> d21 = 1) \<and> ((1 - s) + (1 - t) = 0 \<longrightarrow> d22 = 1)"
    using c0 c1 c2 c3 by (auto simp add: Gregory_denominators_def Let_def r0)
  obtain w where W: "Gregory_weights rnd s t = Inr w"
    by (cases "Gregory_denominators rnd s t") (simp add: Gregory_weights_Inr)
  have z0: "w ! 0 = (0, 0)" if "s + t = 0"
    using W c0 [OF that]
    by (auto simp add: Gregory_weights_Inr Gregory_denominators_def Let_def r0)
  have z1: "w ! 1 = (0, 0)" if "(1 - s) + t = 0"
    using W c1 [OF that]
    by (auto simp add: Gregory_weights_Inr Gregory_denominators_def Let_def r0)
  have z2: "w ! 2 = (0, 0)" if "s + (1 - t) = 0"
    using W c2 [OF that]
    by (auto simp add: Gregory_weights_Inr Gregory_denominators_def Let_def r0)
  have z3: "w ! 3 = (0, 0)" if "(1 - s) + (1 - t) = 0"
    using W c3 [OF that]
    by (auto simp add: Gregory_weights_Inr Gregory_denominators_def Let_def r0)
  have p: "permute ! 5 = - 1" "permute ! 6 = - 1" "permute ! 9 = - 1" "permute ! 10 = - 1"
    by (simp_all add: permute_def)
  have fp: "fpermute ! 0 = (3, 4)" "fpermute ! 1 = (9, 8)" "fpermute ! 2 = (19, 18)"
    "fpermute ! 3 = (13, 14)"
    by (simp_all add: fpermute_def)
  have slot: "Gregory_slot rnd add bs si w Q Qd1 Qd2 src i (dst, f) =
        Inr (zero_calls add bs si src (zero_calls add bs si src dst v0) v1, f + 1) \<and>
      ((\<forall>d x. add d x 0 0 0 = d) \<longrightarrow>
        Gregory_slot rnd add bs si w Q Qd1 Qd2 src i (dst, f) = Inr (dst, f + 1))"
    if "permute ! i = - 1" "f < 4" "fpermute ! f = (v0, v1)" "w ! f = (0, 0)" for i f v0 v1
    using r0 that
      Gregory_slot_degenerate [where rnd = rnd and i = i and f = f and ?v0.0 = v0
        and ?v1.0 = v1 and w = w and add = add and bs = bs and si = si and Q = Q
        and ?Qd1.0 = Qd1 and ?Qd2.0 = Qd2 and src = src and dst = dst]
    by (simp add: zero_calls_skip)
  have d0: "s + t = 0 \<longrightarrow>
             w ! 0 = (0, 0) \<and> fst (w ! 0) + snd (w ! 0) = 0 \<and>
             Gregory_slot rnd add bs si w Q Qd1 Qd2 src 5 (dst, 0) =
               Inr (zero_calls add bs si src (zero_calls add bs si src dst 3) 4, 1) \<and>
             ((\<forall>d x. add d x 0 0 0 = d) \<longrightarrow>
                Gregory_slot rnd add bs si w Q Qd1 Qd2 src 5 (dst, 0) = Inr (dst, 1))"
    using z0 slot [OF p(1) _ fp(1)] by (auto simp add: zero_calls_skip)
  have d1: "(1 - s) + t = 0 \<longrightarrow>
             w ! 1 = (0, 0) \<and> fst (w ! 1) + snd (w ! 1) = 0 \<and>
             Gregory_slot rnd add bs si w Q Qd1 Qd2 src 6 (dst, 1) =
               Inr (zero_calls add bs si src (zero_calls add bs si src dst 9) 8, 2) \<and>
             ((\<forall>d x. add d x 0 0 0 = d) \<longrightarrow>
                Gregory_slot rnd add bs si w Q Qd1 Qd2 src 6 (dst, 1) = Inr (dst, 2))"
    using z1 slot [OF p(2) _ fp(2)] by (auto simp add: zero_calls_skip)
  have d2: "s + (1 - t) = 0 \<longrightarrow>
             w ! 2 = (0, 0) \<and> fst (w ! 2) + snd (w ! 2) = 0 \<and>
             Gregory_slot rnd add bs si w Q Qd1 Qd2 src 9 (dst, 2) =
               Inr (zero_calls add bs si src (zero_calls add bs si src dst 19) 18, 3) \<and>
             ((\<forall>d x. add d x 0 0 0 = d) \<longrightarrow>
                Gregory_slot rnd add bs si w Q Qd1 Qd2 src 9 (dst, 2) = Inr (dst, 3))"
    using z2 slot [OF p(3) _ fp(3)] by (auto simp add: zero_calls_skip)
  have d3: "(1 - s) + (1 - t) = 0 \<longrightarrow>
             w ! 3 = (0, 0) \<and> fst (w ! 3) + snd (w ! 3) = 0 \<and>
             Gregory_slot rnd add bs si w Q Qd1 Qd2 src 10 (dst, 3) =
               Inr (zero_calls add bs si src (zero_calls add bs si src dst 13) 14, 4) \<and>
             ((\<forall>d x. add d x 0 0 0 = d) \<longrightarrow>
                Gregory_slot rnd add bs si w Q Qd1 Qd2 src 10 (dst, 3) = Inr (dst, 4))"
    using z3 slot [OF p(4) _ fp(4)] by (auto simp add: zero_calls_skip)
  have degenerate:
    "case Gregory_weights rnd s t of
        Inl e \<Rightarrow> False
      | Inr w \<Rightarrow>
          (s + t = 0 \<longrightarrow>
             w ! 0 = (0, 0) \<and> fst (w ! 0) + snd (w ! 0) = 0 \<and>
             Gregory_slot rnd add bs si w Q Qd1 Qd2 src 5 (dst, 0) =
               Inr (zero_calls add bs si src (zero_calls add bs si src dst 3) 4, 1) \<and>
             ((\<forall>d x. add d x 0 0 0 = d) \<longrightarrow>
                Gregory_slot rnd add bs si w Q Qd1 Qd2 src 5 (dst, 0) = Inr (dst, 1))) \<and>
          ((1 - s) + t = 0 \<longrightarrow>
             w ! 1 = (0, 0) \<and> fst (w ! 1) + snd (w ! 1) = 0 \<and>
             Gregory_slot rnd add bs si w Q Qd1 Qd2 src 6 (dst, 1) =
               Inr (zero_calls add bs si src (zero_calls add bs si src dst 9) 8, 2) \<and>
             ((\<forall>d x. add d x 0 0 0 = d) \<longrightarrow>
                Gregory_slot rnd add bs si w Q Qd1 Qd2 src 6 (dst, 1) = Inr (dst, 2))) \<and>
          (s + (1 - t) = 0 \<longrightarrow>
             w ! 2 = (0, 0) \<and> fst (w ! 2) + snd (w ! 2) = 0 \<and>
             Gregory_slot rnd add bs si w Q Qd1 Qd2 src 9 (dst, 2) =
               Inr (zero_calls add bs si src (zero_calls add bs si src dst 19) 18, 3) \<and>
             ((\<forall>d x. add d x 0 0 0 = d) \<longrightarrow>
                Gregory_slot rnd add bs si w Q Qd1 Qd2 src 9 (dst, 2) = Inr (dst, 3))) \<and>
          ((1 - s) + (1 - t) = 0 \<longrightarrow>
             w ! 3 = (0, 0) \<and> fst (w ! 3) + snd (w ! 3) = 0 \<and>
             Gregory_slot rnd add bs si w Q Qd1 Qd2 src 10 (dst, 3) =
               Inr (zero_calls add bs si src (zero_calls add bs si src dst 13) 14, 4) \<and>
             ((\<forall>d x. add d x 0 0 0 = d) \<longrightarrow>
                Gregory_slot rnd add bs si w Q Qd1 Qd2 src 10 (dst, 3) = Inr (dst, 4)))"
    unfolding W sum.case by (rule conjI [OF d0 conjI [OF d1 conjI [OF d2 d3]]])
  show ?thesis
    by (rule conjI [OF exact_sums conjI [OF denominators degenerate]])
qed

theorem Gregory_blend_pairs_witness:
  "(0::real) \<le> 0 \<and> (0::real) \<le> 1 \<and> float32 0 = 0 \<and>
   (\<forall>d x. example_add d x 0 0 0 = d) \<and>
   Gregory_weights exact 0 0 = Inr [(0, 0), (1, 0), (0, 1), (1 / 2, 1 / 2)] \<and>
   fst ((1 / 2, 1 / 2) :: real \<times> real) + snd ((1 / 2, 1 / 2) :: real \<times> real) = 1 \<and>
   Gregory_denominators float32 0 0 = (1, 1, 1, 2) \<and>
   Gregory_weights float32 0 0 = Inr [(0, 0), (1, 0), (0, 1), (1 / 2, 1 / 2)] \<and>
   Gregory_slot float32 example_log example_stencils 0 [(0, 0), (1, 0), (0, 1), (1 / 2, 1 / 2)]
     (\<lambda>k. 1 / 16) (\<lambda>k. 0) (\<lambda>k. 0) real_of_int 5 ([], 0) =
     Inr ([(3, 0, 0, 0), (4, 0, 0, 0)], 1) \<and>
   Gregory_slot float32 example_add example_stencils 0 [(0, 0), (1, 0), (0, 1), (1 / 2, 1 / 2)]
     (\<lambda>k. 1 / 16) (\<lambda>k. 0) (\<lambda>k. 0) real_of_int 5 ((1, 2, 3), 0) = Inr ((1, 2, 3), 1)"
proof -
  have z: "\<forall>d x. example_add d x 0 0 0 = d"
    by (simp add: example_add_def split: prod.splits)
  have we: "Gregory_weights exact 0 0 = Inr [(0, 0), (1, 0), (0, 1), (1 / 2, 1 / 2)]"
    by (simp add: Gregory_weights_def Gregory_denominators_def Let_def exact_def)
  have d: "Gregory_denominators float32 0 0 = (1, 1, 1, 2)"
    by (simp add: Gregory_denominators_def Let_def float32_0 float32_1 float32_2)
  have wf: "Gregory_weights float32 0 0 = Inr [(0, 0), (1, 0), (0, 1), (1 / 2, 1 / 2)]"
    by (simp add: Gregory_weights_def d Let_def float32_0 float32_1 float32_2 float32_half)
  have l: "zero_calls example_log example_stencils 0 real_of_int
      (zero_calls example_log example_stencils 0 real_of_int [] 3) 4 =
      [(3, 0, 0, 0), (4, 0, 0, 0)]"
    by (simp add: zero_calls_def example_log_def example_stencils_def)
  have a: "zero_calls example_add example_stencils 0 real_of_int
      (zero_calls example_add example_stencils 0 real_of_int (1, 2, 3) 3) 4 = (1, 2, 3)"
    by (simp add: zero_calls_def example_add_def example_stencils_def)
  from
    Gregory_blend_pairs [where s = 0 and t = 0 and rnd = float32 and add = example_log
      and bs = example_stencils and si = 0 and Q = "\<lambda>k. 1 / 16" and ?Qd1.0 = "\<lambda>k. 0"
      and ?Qd2.0 = "\<lambda>k. 0" and src = real_of_int and dst = "[]"]
    Gregory_blend_pairs [where s = 0 and t = 0 and rnd = float32 and add = example_add
      and bs = example_stencils and si = 0 and Q = "\<lambda>k. 1 / 16" and ?Qd1.0 = "\<lambda>k. 0"
      and ?Qd2.0 = "\<lambda>k. 0" and src = real_of_int and dst = "(1, 2, 3)"]
  show ?thesis
    by (simp add: we wf d l a z float32_0)
qed

text \<open>
  The claim C10 as stated fails in single precision. At \<open>s = 13421773 / 2^27\<close> and
  \<open>t = 13421773 / 2^26\<close> (the single-precision values of 0.1 and 0.2), inside the unit
  square, the denominator \<^verbatim>\<open>d11\<close> is not zero and the two weights of the first blended slot
  sum to \<open>1 - 2^-24\<close>.
\<close>

lemma Gregory_first_pair:
  assumes "rnd (s + t) = d" "d \<noteq> 0" "rnd (s / d) = a" "rnd (t / d) = b"
  shows "Gregory_weights rnd s t \<noteq> Inl Division_by_zero \<and>
         projr (Gregory_weights rnd s t) ! 0 = (a, b)"
  using assms by (simp add: Gregory_weights_Inr Gregory_denominators_def Let_def split: prod.splits)

theorem Gregory_blend_pair_float32_not_one:
  "float32 (13421773 / 134217728 + 13421773 / 67108864) = 5033165 / 16777216 \<and>
   Gregory_weights float32 (13421773 / 134217728) (13421773 / 67108864) \<noteq> Inl Division_by_zero \<and>
   projr (Gregory_weights float32 (13421773 / 134217728) (13421773 / 67108864)) ! 0 =
     (5592405 / 16777216, 5592405 / 8388608) \<and>
   (5592405 / 16777216 + 5592405 / 8388608 :: real) = 16777215 / 16777216 \<and>
   (5592405 / 16777216 + 5592405 / 8388608 :: real) \<noteq> 1"
proof -
  have d: "float32 (13421773 / 134217728 + 13421773 / 67108864) = 5033165 / 16777216"
    by (simp add: float32_eval)
  have nz: "(5033165 / 16777216 :: real) \<noteq> 0"
    by simp
  have a: "float32 ((13421773 / 134217728) / (5033165 / 16777216)) = 5592405 / 16777216"
    by (simp add: float32_eval)
  have b: "float32 ((13421773 / 67108864) / (5033165 / 16777216)) = 5592405 / 8388608"
    by (simp add: float32_eval)
  have s: "(5592405 / 16777216 + 5592405 / 8388608 :: real) = 16777215 / 16777216"
    by simp
  have ne: "(5592405 / 16777216 + 5592405 / 8388608 :: real) \<noteq> 1"
    by simp
  from Gregory_first_pair [OF d nz a b] d s ne show ?thesis
    by blast
qed

subsection \<open>Gregory-basis patches: the stencils\<close>

lemma Gregory_slot_single:
  "permute ! i = v \<Longrightarrow> v \<noteq> - 1 \<Longrightarrow>
   Gregory_slot rnd add bs si w Q Qd1 Qd2 src i (dst, f) =
     Inr (add_stencil rnd add bs si Q Qd1 Qd2 src dst (i, v, None), f)"
  by (simp add: Gregory_slot_def add_stencil_def Let_def for_loop_foldl)

lemma Gregory_slot_blend:
  "permute ! i = - 1 \<Longrightarrow> f < 4 \<Longrightarrow> fpermute ! f = (v0, v1) \<Longrightarrow> w ! f = (w0, w1) \<Longrightarrow>
   Gregory_slot rnd add bs si w Q Qd1 Qd2 src i (dst, f) =
     Inr (add_stencil rnd add bs si Q Qd1 Qd2 src
            (add_stencil rnd add bs si Q Qd1 Qd2 src dst (i, v0, Some w0)) (i, v1, Some w1),
          f + 1)"
  by (simp add: Gregory_slot_def add_stencil_def Let_def for_loop_foldl)

lemma Gregory_loop:
  "for_loop_err 16
     (Gregory_slot rnd add bs si [(a0, b0), (a1, b1), (a2, b2), (a3, b3)] Q Qd1 Qd2 src)
     (dst, 0) =
   Inr (foldl (add_stencil rnd add bs si Q Qd1 Qd2 src) dst
     [(0, 0, None), (1, 1, None), (2, 7, None), (3, 5, None),
      (4, 2, None), (5, 3, Some a0), (5, 4, Some b0),
      (6, 9, Some a1), (6, 8, Some b1), (7, 6, None),
      (8, 16, None), (9, 19, Some a2), (9, 18, Some b2),
      (10, 13, Some a3), (10, 14, Some b3), (11, 12, None),
      (12, 15, None), (13, 17, None), (14, 11, None), (15, 10, None)], 4)"
  by (simp add: for_loop_err_unroll Gregory_slot_single Gregory_slot_blend
      permute_def fpermute_def)

lemma InterpolateGregoryPatch_unrolled:
  "InterpolateGregoryPatch rnd add bs si s t Q Qd1 Qd2 src dst =
     (case Gregory_denominators rnd s t of (d11, d12, d21, d22) \<Rightarrow>
        Inr (foldl (add_stencil rnd add bs si Q Qd1 Qd2 src) dst
          [(0, 0, None), (1, 1, None), (2, 7, None), (3, 5, None),
           (4, 2, None), (5, 3, Some (rnd (s / d11))), (5, 4, Some (rnd (t / d11))),
           (6, 9, Some (rnd (rnd (1 - s) / d12))), (6, 8, Some (rnd (t / d12))), (7, 6, None),
           (8, 16, None), (9, 19, Some (rnd (s / d21))), (9, 18, Some (rnd (rnd (1 - t) / d21))),
           (10, 13, Some (rnd (rnd (1 - s) / d22))), (10, 14, Some (rnd (rnd (1 - t) / d22))),
           (11, 12, None), (12, 15, None), (13, 17, None), (14, 11, None), (15, 10, None)]))"
  by (simp add: InterpolateGregoryPatch_def Gregory_weights_Inr Gregory_loop split: prod.splits)

lemma InterpolateGregoryPatch_Inr:
  "\<exists>r. InterpolateGregoryPatch rnd add bs si s t Q Qd1 Qd2 src dst = Inr r"
  by (simp add: InterpolateGregoryPatch_unrolled split: prod.splits)

text \<open>
  C4. For every \<open>(s, t)\<close> and every rounding, the permutation table of
  \<^verbatim>\<open>InterpolateGregoryPatch\<close> gives twelve of the sixteen slots of the tensor basis one
  stencil, at the offset \<open>stencilIndex\<close> plus the permuted index, and the four slots 5, 6,
  9, 10 a blend of two stencils, the first of them weighted by the ratio \<open>s/(s+t)\<close>,
  \<open>(1-s)/((1-s)+t)\<close>, \<open>s/(s+(1-t))\<close>, \<open>(1-s)/((1-s)+(1-t))\<close> and the second by the
  complementary ratio, each operation rounded, and a denominator whose sum is zero replaced
  by 1. Every source \<open>j\<close> of a stencil is accumulated with the basis weight of the slot
  (\<open>Q[i]\<close>, \<open>Qd1[i]\<close>, \<open>Qd2[i]\<close>) times the blend weight, if the slot is blended, times the
  weight of the source in the stencil.
\<close>

theorem InterpolateGregoryPatch_stencils:
  fixes rnd :: "float \<Rightarrow> float" and s t :: float
  defines "ss \<equiv> rnd (1 - s)" and "tt \<equiv> rnd (1 - t)"
  defines "d11 \<equiv> (if rnd (s + t) = 0 then 1 else rnd (s + t))"
    and "d12 \<equiv> (if rnd (ss + t) = 0 then 1 else rnd (ss + t))"
    and "d21 \<equiv> (if rnd (s + tt) = 0 then 1 else rnd (s + tt))"
    and "d22 \<equiv> (if rnd (ss + tt) = 0 then 1 else rnd (ss + tt))"
  shows "InterpolateGregoryPatch rnd add basisStencils stencilIndex s t Q Qd1 Qd2 src dst =
     Inr (foldl (add_stencil rnd add basisStencils stencilIndex Q Qd1 Qd2 src) dst
       [(0, 0, None), (1, 1, None), (2, 7, None), (3, 5, None), (4, 2, None),
        (5, 3, Some (rnd (s / d11))), (5, 4, Some (rnd (t / d11))),
        (6, 9, Some (rnd (ss / d12))), (6, 8, Some (rnd (t / d12))),
        (7, 6, None), (8, 16, None),
        (9, 19, Some (rnd (s / d21))), (9, 18, Some (rnd (tt / d21))),
        (10, 13, Some (rnd (ss / d22))), (10, 14, Some (rnd (tt / d22))),
        (11, 12, None), (12, 15, None), (13, 17, None), (14, 11, None), (15, 10, None)])"
  unfolding ss_def tt_def d11_def d12_def d21_def d22_def
  by (simp add: InterpolateGregoryPatch_unrolled Gregory_denominators_def Let_def)

lemma float32_sixteenth: "float32 (1 / 16) = 1 / 16"
  by (simp add: float32_eval)

lemma float32_thirty_second: "float32 (1 / 32) = 1 / 32"
  by (simp add: float32_eval)

theorem InterpolateGregoryPatch_stencils_witness:
  "InterpolateGregoryPatch float32 example_add example_stencils 0 0 0
     (\<lambda>k. 1 / 16) (\<lambda>k. 0) (\<lambda>k. 0) real_of_int (0, 0, 0) = Inr (285 / 32, 0, 0) \<and>
   InterpolateGregoryPatch exact example_add example_stencils 0 (1 / 2) (1 / 4)
     (\<lambda>k. 1 / 16) (\<lambda>k. 0) (\<lambda>k. 0) real_of_int (0, 0, 0) = Inr (73 / 8, 0, 0)"
proof -
  have e: "exact = (\<lambda>x. x)"
    by (rule ext) (simp add: exact_def)
  have corner: "InterpolateGregoryPatch float32 example_add example_stencils 0 0 0
     (\<lambda>k. 1 / 16) (\<lambda>k. 0) (\<lambda>k. 0) real_of_int (0, 0, 0) = Inr (285 / 32, 0, 0)"
    using InterpolateGregoryPatch_stencils [where rnd = float32 and s = 0 and t = 0
        and add = example_add and basisStencils = example_stencils and stencilIndex = 0
        and Q = "\<lambda>k. 1 / 16" and ?Qd1.0 = "\<lambda>k. 0" and ?Qd2.0 = "\<lambda>k. 0"
        and src = real_of_int and dst = "(0, 0, 0)"]
    by (simp add: add_stencil_def example_add_def example_stencils_def Let_def
        float32_0 float32_1 float32_2 float32_half float32_sixteenth float32_thirty_second)
  have inside: "InterpolateGregoryPatch exact example_add example_stencils 0 (1 / 2) (1 / 4)
     (\<lambda>k. 1 / 16) (\<lambda>k. 0) (\<lambda>k. 0) real_of_int (0, 0, 0) = Inr (73 / 8, 0, 0)"
    using InterpolateGregoryPatch_stencils [where rnd = exact and s = "1 / 2" and t = "1 / 4"
        and add = example_add and basisStencils = example_stencils and stencilIndex = 0
        and Q = "\<lambda>k. 1 / 16" and ?Qd1.0 = "\<lambda>k. 0" and ?Qd2.0 = "\<lambda>k. 0"
        and src = real_of_int and dst = "(0, 0, 0)"]
    by (simp add: add_stencil_def example_add_def example_stencils_def e Let_def)
  from corner inside show ?thesis
    by (rule conjI)
qed

subsection \<open>Interpolate and Limit\<close>

lemma vector_at_Inr_set: "vector_at xs i = Inr x \<Longrightarrow> x \<in> set xs"
  by (auto simp add: vector_at_def split: if_splits)

lemma descriptor_IsFeatureAdaptive:
  "GetPatchArrayDescriptor tables i = Inr d \<Longrightarrow> GetType d \<noteq> QUADS \<Longrightarrow> IsFeatureAdaptive tables"
  by (auto simp add: GetPatchArrayDescriptor_def IsFeatureAdaptive_def list_ex_iff
      split: sum.splits dest: vector_at_Inr_set)

lemma descriptor_GetPatchVertices:
  "GetPatchArrayDescriptor tables (arrayIndex handle) = Inr d \<Longrightarrow>
   \<exists>cvs. GetPatchVertices tables handle = Inr cvs"
  by (auto simp add: GetPatchArrayDescriptor_def GetPatchVertices_def split: sum.splits)

lemma example_descriptor:
  "GetPatchArrayDescriptor (example_tables ty) (arrayIndex example_handle) = Inr \<lparr>GetType = ty\<rparr>"
  by (simp add: GetPatchArrayDescriptor_def example_tables_def example_handle_def vector_at_def)

lemma example_param:
  "vector_at (paramTable (example_tables ty)) (patchIndex example_handle) = Inr \<lparr>bitField = ()\<rparr>"
  by (simp add: example_tables_def example_handle_def vector_at_def)

lemma example_IsFeatureAdaptive: "IsFeatureAdaptive (example_tables ty) \<longleftrightarrow> ty \<noteq> QUADS"
  by (simp add: IsFeatureAdaptive_def example_tables_def)

lemma example_Type_ord:
  "Type_ord example_externals REGULAR = 6" "Type_ord example_externals SINGLE_CREASE = 7"
  "Type_ord example_externals BOUNDARY = 8" "Type_ord example_externals CORNER = 9"
  "Type_ord example_externals GREGORY = 10" "Type_ord example_externals GREGORY_BOUNDARY = 11"
  "Type_ord example_externals GREGORY_BASIS = 12" "Type_ord example_externals QUADS = 3"
  by (simp_all add: example_externals_def)

lemma example_Clear: "Clear example_externals dst = (0, 0, 0)"
  by (simp add: example_externals_def)

text \<open>
  C5. For a handle whose array descriptor has the type \<^verbatim>\<open>SINGLE_CREASE\<close> (and whose patch
  index lies in the parameter table), for every \<open>(s, t)\<close> and every source buffer, \<^verbatim>\<open>Limit\<close>
  returns the destination as \<^verbatim>\<open>Clear\<close> left it: no \<^verbatim>\<open>AddWithWeight\<close> is performed. The
  enumeration is declared outside the header; the theorem takes from it that
  \<^verbatim>\<open>SINGLE_CREASE\<close> lies between \<^verbatim>\<open>REGULAR\<close> and \<^verbatim>\<open>CORNER\<close>.
\<close>

theorem Limit_single_crease_cleared:
  assumes "GetPatchArrayDescriptor tables (arrayIndex handle) = Inr d"
    and "GetType d = SINGLE_CREASE"
    and "vector_at (paramTable tables) (patchIndex handle) = Inr param"
    and "Type_ord E REGULAR \<le> Type_ord E SINGLE_CREASE"
    and "Type_ord E SINGLE_CREASE \<le> Type_ord E CORNER"
  shows "Limit E tables handle s t src dst = Inr (Clear E dst)"
proof -
  have fa: "IsFeatureAdaptive tables"
    using assms(1,2) by (auto intro: descriptor_IsFeatureAdaptive)
  obtain cvs where cvs: "GetPatchVertices tables handle = Inr cvs"
    using descriptor_GetPatchVertices [OF assms(1)] by blast
  show ?thesis
    using assms fa cvs by (simp add: Limit_def Let_def split: prod.splits)
qed

theorem Limit_single_crease_cleared_witness:
  "GetPatchArrayDescriptor (example_tables SINGLE_CREASE) (arrayIndex example_handle) =
     Inr \<lparr>GetType = SINGLE_CREASE\<rparr> \<and>
   vector_at (paramTable (example_tables SINGLE_CREASE)) (patchIndex example_handle) =
     Inr \<lparr>bitField = ()\<rparr> \<and>
   Type_ord example_externals REGULAR \<le> Type_ord example_externals SINGLE_CREASE \<and>
   Type_ord example_externals SINGLE_CREASE \<le> Type_ord example_externals CORNER \<and>
   Limit example_externals (example_tables SINGLE_CREASE) example_handle (1 / 2) (1 / 4)
     real_of_int (5, 6, 7) = Inr (0, 0, 0)"
proof -
  have c: "Type_ord example_externals REGULAR \<le> Type_ord example_externals SINGLE_CREASE"
    "Type_ord example_externals SINGLE_CREASE \<le> Type_ord example_externals CORNER"
    by (simp_all add: example_Type_ord)
  from Limit_single_crease_cleared [OF example_descriptor _ example_param c,
      where s = "1 / 2" and t = "1 / 4" and src = real_of_int and dst = "(5, 6, 7)"]
  show ?thesis
    by (simp add: example_descriptor example_param example_Type_ord example_Clear)
qed

text \<open>
  C7. \<^verbatim>\<open>Interpolate\<close> fails its assertion exactly when the store is feature adaptive, and
  \<^verbatim>\<open>Limit\<close> fails its assertion exactly when the store is not: a call that violates the
  precondition ends in the failed assertion, and under the precondition that failure is
  unreachable.
\<close>

theorem feature_adaptive_assertions:
  "(Interpolate E tables handle s t src dst = Inl Assert_not_IsFeatureAdaptive
      \<longleftrightarrow> IsFeatureAdaptive tables) \<and>
   (Limit E tables handle s t src dst = Inl Assert_IsFeatureAdaptive
      \<longleftrightarrow> \<not> IsFeatureAdaptive tables)"
proof -
  have g: "InterpolateGregoryPatch (rounding E) (AddWithWeight E) st (vertIndex handle)
      s' t' Q Qd1 Qd2 src dst' \<noteq> Inl Assert_IsFeatureAdaptive" for st Q Qd1 Qd2 s' t' dst'
    using InterpolateGregoryPatch_Inr [of "rounding E" "AddWithWeight E" st "vertIndex handle"
        s' t' Q Qd1 Qd2 src dst']
    by auto
  have 1: "Interpolate E tables handle s t src dst = Inl Assert_not_IsFeatureAdaptive
      \<longleftrightarrow> IsFeatureAdaptive tables"
    by (auto simp add: Interpolate_def Let_def vector_at_def GetPatchVertices_def
        split: sum.splits prod.splits if_splits)
  have 2: "Limit E tables handle s t src dst = Inl Assert_IsFeatureAdaptive
      \<longleftrightarrow> \<not> IsFeatureAdaptive tables"
    using g
    by (auto simp add: Limit_def Let_def vector_at_def GetPatchVertices_def
        GetPatchArrayDescriptor_def
        split: sum.splits prod.splits if_splits Type.splits option.splits)
  from 1 2 show ?thesis by simp
qed

theorem feature_adaptive_assertions_witness:
  "IsFeatureAdaptive (example_tables REGULAR) \<and>
   Interpolate example_externals (example_tables REGULAR) example_handle (1 / 2) (1 / 4)
     real_of_int (0, 0, 0) = Inl Assert_not_IsFeatureAdaptive \<and>
   Limit example_externals (example_tables REGULAR) example_handle (1 / 2) (1 / 4)
     real_of_int (0, 0, 0) \<noteq> Inl Assert_IsFeatureAdaptive \<and>
   \<not> IsFeatureAdaptive (example_tables QUADS) \<and>
   Limit example_externals (example_tables QUADS) example_handle (1 / 2) (1 / 4)
     real_of_int (0, 0, 0) = Inl Assert_IsFeatureAdaptive \<and>
   Interpolate example_externals (example_tables QUADS) example_handle (1 / 2) (1 / 4)
     real_of_int (0, 0, 0) \<noteq> Inl Assert_not_IsFeatureAdaptive"
  using
    feature_adaptive_assertions [where E = example_externals
      and tables = "example_tables REGULAR" and handle = example_handle
      and s = "1 / 2" and t = "1 / 4" and src = real_of_int and dst = "(0, 0, 0)"]
    feature_adaptive_assertions [where E = example_externals
      and tables = "example_tables QUADS" and handle = example_handle
      and s = "1 / 2" and t = "1 / 4" and src = real_of_int and dst = "(0, 0, 0)"]
  by (simp add: example_IsFeatureAdaptive)

text \<open>
  C8. In \<^verbatim>\<open>Limit\<close>, on a feature-adaptive store and a handle inside the tables, a patch
  whose descriptor type is \<^verbatim>\<open>GREGORY\<close> or \<^verbatim>\<open>GREGORY_BOUNDARY\<close>, or any type that is neither
  in the range from \<^verbatim>\<open>REGULAR\<close> to \<^verbatim>\<open>CORNER\<close> nor \<^verbatim>\<open>GREGORY_BASIS\<close>, ends in \<^verbatim>\<open>assert(0)\<close>.
  For a descriptor type \<^verbatim>\<open>REGULAR\<close>, \<^verbatim>\<open>SINGLE_CREASE\<close>, \<^verbatim>\<open>BOUNDARY\<close>, \<^verbatim>\<open>CORNER\<close> or
  \<^verbatim>\<open>GREGORY_BASIS\<close>, \<^verbatim>\<open>assert(0)\<close> is not reached. The enumeration is declared outside the
  header; the second part takes from it that these five members are in this order, the
  last one strictly above \<^verbatim>\<open>CORNER\<close>.
\<close>

theorem Limit_assert_0:
  assumes d: "GetPatchArrayDescriptor tables (arrayIndex handle) = Inr d"
  shows
    "(IsFeatureAdaptive tables \<and>
      vector_at (paramTable tables) (patchIndex handle) = Inr param \<and>
      (GetType d = GREGORY \<or> GetType d = GREGORY_BOUNDARY \<or>
       \<not> (Type_ord E (GetType d) \<ge> Type_ord E REGULAR \<and>
          Type_ord E (GetType d) \<le> Type_ord E CORNER) \<and>
       GetType d \<noteq> GREGORY_BASIS)
      \<longrightarrow> Limit E tables handle s t src dst = Inl Assert_0) \<and>
     (Type_ord E REGULAR \<le> Type_ord E SINGLE_CREASE \<and>
      Type_ord E SINGLE_CREASE \<le> Type_ord E BOUNDARY \<and>
      Type_ord E BOUNDARY \<le> Type_ord E CORNER \<and>
      Type_ord E CORNER < Type_ord E GREGORY_BASIS \<and>
      GetType d \<in> {REGULAR, SINGLE_CREASE, BOUNDARY, CORNER, GREGORY_BASIS}
      \<longrightarrow> Limit E tables handle s t src dst \<noteq> Inl Assert_0)"
proof -
  obtain cvs where cvs: "GetPatchVertices tables handle = Inr cvs"
    using descriptor_GetPatchVertices [OF d] by blast
  have g: "InterpolateGregoryPatch (rounding E) (AddWithWeight E) st (vertIndex handle)
      s' t' Q Qd1 Qd2 src dst' \<noteq> Inl Assert_0" for st Q Qd1 Qd2 s' t' dst'
    using InterpolateGregoryPatch_Inr [of "rounding E" "AddWithWeight E" st "vertIndex handle"
        s' t' Q Qd1 Qd2 src dst']
    by auto
  have fatal: "Limit E tables handle s t src dst = Inl Assert_0"
    if "IsFeatureAdaptive tables"
      and "vector_at (paramTable tables) (patchIndex handle) = Inr param"
      and "GetType d = GREGORY \<or> GetType d = GREGORY_BOUNDARY \<or>
       \<not> (Type_ord E (GetType d) \<ge> Type_ord E REGULAR \<and>
          Type_ord E (GetType d) \<le> Type_ord E CORNER) \<and>
       GetType d \<noteq> GREGORY_BASIS"
    using that d cvs
    by (auto simp add: Limit_def Let_def split: prod.splits)
  have supported: "Limit E tables handle s t src dst \<noteq> Inl Assert_0"
    if "Type_ord E REGULAR \<le> Type_ord E SINGLE_CREASE"
      and "Type_ord E SINGLE_CREASE \<le> Type_ord E BOUNDARY"
      and "Type_ord E BOUNDARY \<le> Type_ord E CORNER"
      and "Type_ord E CORNER < Type_ord E GREGORY_BASIS"
      and "GetType d \<in> {REGULAR, SINGLE_CREASE, BOUNDARY, CORNER, GREGORY_BASIS}"
    using that d cvs g
    by (auto simp add: Limit_def Let_def vector_at_def
        split: prod.splits sum.splits option.splits if_splits)
  from fatal supported show ?thesis
    by blast
qed

theorem Limit_assert_0_witness:
  "GetPatchArrayDescriptor (example_tables GREGORY) (arrayIndex example_handle) =
     Inr \<lparr>GetType = GREGORY\<rparr> \<and>
   IsFeatureAdaptive (example_tables GREGORY) \<and>
   vector_at (paramTable (example_tables GREGORY)) (patchIndex example_handle) =
     Inr \<lparr>bitField = ()\<rparr> \<and>
   Limit example_externals (example_tables GREGORY) example_handle (1 / 2) (1 / 4)
     real_of_int (0, 0, 0) = Inl Assert_0 \<and>
   GetPatchArrayDescriptor (example_tables BOUNDARY) (arrayIndex example_handle) =
     Inr \<lparr>GetType = BOUNDARY\<rparr> \<and>
   Type_ord example_externals REGULAR \<le> Type_ord example_externals SINGLE_CREASE \<and>
   Type_ord example_externals SINGLE_CREASE \<le> Type_ord example_externals BOUNDARY \<and>
   Type_ord example_externals BOUNDARY \<le> Type_ord example_externals CORNER \<and>
   Type_ord example_externals CORNER < Type_ord example_externals GREGORY_BASIS \<and>
   Limit example_externals (example_tables BOUNDARY) example_handle (1 / 2) (1 / 4)
     real_of_int (0, 0, 0) \<noteq> Inl Assert_0"
  using
    Limit_assert_0 [OF example_descriptor [of GREGORY], where param = "\<lparr>bitField = ()\<rparr>"
      and E = example_externals and s = "1 / 2" and t = "1 / 4" and src = real_of_int
      and dst = "(0, 0, 0)"]
    Limit_assert_0 [OF example_descriptor [of BOUNDARY], where param = "\<lparr>bitField = ()\<rparr>"
      and E = example_externals and s = "1 / 2" and t = "1 / 4" and src = real_of_int
      and dst = "(0, 0, 0)"]
  by (simp add: example_descriptor example_param example_IsFeatureAdaptive example_Type_ord)

text \<open>
  The contents of the destination before the call reach the result of \<^verbatim>\<open>Limit\<close> and of
  \<^verbatim>\<open>Interpolate\<close> only through \<^verbatim>\<open>Clear\<close>.
\<close>

lemma destination_through_Clear:
  assumes "Clear E dst' = Clear E dst"
  shows "Limit E tables handle s t src dst' = Limit E tables handle s t src dst \<and>
         Interpolate E tables handle s t src dst' = Interpolate E tables handle s t src dst"
  unfolding Limit_def Interpolate_def Let_def assms by simp

end
